theory Spec2Isabelle
  imports Main "HOL-Library.AList"
begin

section \<open>Python values, exceptions and the operations the handlers use\<close>

text \<open>
  The handlers of \<^verbatim>\<open>backend/app/api/course.py\<close> work on JSON-ready Python values:
  dictionaries with string keys, lists, strings, integers, booleans and None. A dictionary
  is an association list: Python dictionaries keep insertion order, and assigning to an
  existing key keeps its position, which is what \<open>AList.update\<close> does.
  A string is a list of 8-bit characters, which holds ASCII text as it is. The one
  operation of the handlers that depends on Unicode, \<^verbatim>\<open>str.upper\<close>, is therefore not
  defined here: it is a parameter of the handler that calls it.
\<close>

datatype pyval =
    PNone
  | PBool bool
  | PInt int
  | PStr string
  | PList "pyval list"
  | PDict "(string \<times> pyval) list"

type_synonym pydict = "(string \<times> pyval) list"

text \<open>
  Exceptions other than the web framework's HTTPException. \<open>ValueError m\<close> and
  \<open>OtherError m\<close> carry \<open>str(e)\<close>; \<open>OtherError\<close> stands for every class that is neither
  ValueError, KeyError nor TypeError (and not HTTPException: the collaborators are service
  classes below the web layer). KeyError carries the missing key, TypeError its message
  (texts as CPython 3.11 prints them).
\<close>

text \<open>A text between single quotes, as in \<^verbatim>\<open>'courses'\<close>.\<close>

definition quoted :: "string \<Rightarrow> string" where
  "quoted s = [CHR 0x27] @ s @ [CHR 0x27]"

datatype exn =
    ValueError string
  | KeyError string
  | TypeError string
  | OtherError string

fun exn_str :: "exn \<Rightarrow> string" where
  "exn_str (ValueError m) = m"
| "exn_str (KeyError k) = quoted k"
| "exn_str (TypeError m) = m"
| "exn_str (OtherError m) = m"


datatype http_exception = HTTPException (status_code: nat) (detail: string)

fun truthy :: "pyval \<Rightarrow> bool" where
  "truthy PNone = False"
| "truthy (PBool b) = b"
| "truthy (PInt i) = (i \<noteq> 0)"
| "truthy (PStr s) = (s \<noteq> [])"
| "truthy (PList xs) = (xs \<noteq> [])"
| "truthy (PDict d) = (d \<noteq> [])"

text \<open>\<^verbatim>\<open>x or []\<close>.\<close>

definition or_empty :: "pyval \<Rightarrow> pyval" where
  "or_empty v = (if truthy v then v else PList [])"

fun type_name :: "pyval \<Rightarrow> string" where
  "type_name PNone = ''NoneType''"
| "type_name (PBool b) = ''bool''"
| "type_name (PInt i) = ''int''"
| "type_name (PStr s) = ''str''"
| "type_name (PList xs) = ''list''"
| "type_name (PDict d) = ''dict''"

definition digit_char :: "nat \<Rightarrow> char" where
  "digit_char d = char_of (48 + d)"

function nat_str :: "nat \<Rightarrow> string" where
  "nat_str n = (if n < 10 then [digit_char n] else nat_str (n div 10) @ [digit_char (n mod 10)])"
  by pat_completeness auto
termination
  by (relation "measure (\<lambda>n. n)") auto

declare nat_str.simps [simp del]

text \<open>\<^verbatim>\<open>d[k]\<close> on a dictionary, and \<^verbatim>\<open>d[k] = v\<close> (also \<^verbatim>\<open>{**d, k: v}\<close>).\<close>

definition dict_get :: "pydict \<Rightarrow> string \<Rightarrow> exn + pyval" where
  "dict_get d k = (case map_of d k of None \<Rightarrow> Inl (KeyError k) | Some v \<Rightarrow> Inr v)"

definition dict_set :: "pydict \<Rightarrow> string \<Rightarrow> pyval \<Rightarrow> pydict" where
  "dict_set d k v = AList.update k v d"

text \<open>\<^verbatim>\<open>v[k]\<close> with a string key \<open>k\<close>, on any value.\<close>

fun py_getitem :: "pyval \<Rightarrow> string \<Rightarrow> exn + pyval" where
  "py_getitem (PDict d) k = dict_get d k"
| "py_getitem (PStr s) k = Inl (TypeError (''string indices must be integers, not '' @ quoted ''str''))"
| "py_getitem (PList xs) k = Inl (TypeError ''list indices must be integers or slices, not str'')"
| "py_getitem v k = Inl (TypeError (quoted (type_name v) @ '' object is not subscriptable''))"

text \<open>The items a \<^verbatim>\<open>for\<close> loop sees: list items, the characters of a string, the keys of a dictionary.\<close>

fun py_iter :: "pyval \<Rightarrow> exn + pyval list" where
  "py_iter (PList xs) = Inr xs"
| "py_iter (PStr s) = Inr (map (\<lambda>c. PStr [c]) s)"
| "py_iter (PDict d) = Inr (map (\<lambda>kv. PStr (fst kv)) d)"
| "py_iter v = Inl (TypeError (quoted (type_name v) @ '' object is not iterable''))"

fun py_len :: "pyval \<Rightarrow> exn + int" where
  "py_len (PList xs) = Inr (int (length xs))"
| "py_len (PStr s) = Inr (int (length s))"
| "py_len (PDict d) = Inr (int (length d))"
| "py_len v = Inl (TypeError (''object of type '' @ quoted (type_name v) @ '' has no len()''))"

text \<open>\<^verbatim>\<open>sep.join(xs)\<close>: every item must be a string.\<close>

fun join :: "string \<Rightarrow> string list \<Rightarrow> string" where
  "join sep [] = []"
| "join sep [x] = x"
| "join sep (x # y # ys) = x @ sep @ join sep (y # ys)"

fun str_items :: "nat \<Rightarrow> pyval list \<Rightarrow> exn + string list" where
  "str_items i [] = Inr []"
| "str_items i (PStr s # xs) =
     (case str_items (Suc i) xs of Inl e \<Rightarrow> Inl e | Inr ss \<Rightarrow> Inr (s # ss))"
| "str_items i (v # xs) =
     Inl (TypeError (''sequence item '' @ nat_str i @ '': expected str instance, ''
                     @ type_name v @ '' found''))"

definition py_join :: "string \<Rightarrow> pyval list \<Rightarrow> exn + string" where
  "py_join sep xs = (case str_items 0 xs of Inl e \<Rightarrow> Inl e | Inr ss \<Rightarrow> Inr (join sep ss))"

text \<open>
  What \<^verbatim>\<open>s.upper()\<close> returns when \<open>s\<close> is ASCII text: the letters a to z become A to Z and
  every other ASCII character stays. Beyond ASCII \<^verbatim>\<open>str.upper\<close> follows Unicode (it maps
  U+017F to S and U+0131 to I, for instance), which \<open>ascii_upper\<close> does not describe.
\<close>

definition is_ascii :: "char \<Rightarrow> bool" where
  "is_ascii c = ((of_char c :: nat) < 128)"

definition ascii_upper_char :: "char \<Rightarrow> char" where
  "ascii_upper_char c =
     (let n = (of_char c :: nat) in if 97 \<le> n \<and> n \<le> 122 then char_of (n - 32) else c)"

definition ascii_upper :: "string \<Rightarrow> string" where
  "ascii_upper s = map ascii_upper_char s"

section \<open>Collaborators\<close>

text \<open>
  \<open>CourseSearchService\<close>, \<open>Neo4jService\<close>, the \<open>User\<close> and \<open>Course\<close> models are imported by
  the file and defined elsewhere, so they are parameters. A method of a service is a
  function that returns a value or raises. An ORM course has an identifier of a type
  \<open>'i\<close> and a creation time of a type \<open>'t\<close> (absent when NULL); the builtin \<^verbatim>\<open>str\<close> and the
  method \<^verbatim>\<open>isoformat\<close> on them are parameters of the handlers as well, and so is
  \<^verbatim>\<open>str.upper\<close> (\<open>str_upper\<close> below).
  Only \<^verbatim>\<open>completed_courses\<close> of the user reaches a response (\<^verbatim>\<open>id\<close> is only logged).
\<close>

record user =
  completed_courses :: pyval

record ('i, 't) course =
  id_attr :: 'i
  course_id :: pyval
  course_name :: pyval
  course_description :: pyval
  major :: pyval
  domains :: pyval
  skills_associated :: pyval
  prerequisites :: pyval
  created_at :: "'t option"

record ('i, 't) course_search_service =
  svc_search_courses :: "string \<Rightarrow> int \<Rightarrow> int \<Rightarrow> string option \<Rightarrow> exn + pydict"
  svc_get_course_by_id :: "string \<Rightarrow> exn + ('i, 't) course option"
  svc_get_courses_by_major :: "string \<Rightarrow> int \<Rightarrow> exn + ('i, 't) course list"

record neo4j_service =
  is_configured :: "exn + bool"
  check_prerequisites_completion :: "string \<Rightarrow> pyval \<Rightarrow> exn + pyval"

section \<open>search_courses\<close>

text \<open>Lines 93-99: the status the graph collaborator reports for one course.\<close>

definition prereq_status_of ::
  "neo4j_service \<Rightarrow> (pyval \<Rightarrow> string) \<Rightarrow> pyval \<Rightarrow> pyval \<Rightarrow> exn + pyval" where
  "prereq_status_of neo str_of completed c =
     (case py_getitem c ''id'' of
        Inl e \<Rightarrow> Inl e
      | Inr cid \<Rightarrow> check_prerequisites_completion neo (str_of cid) completed)"

text \<open>Lines 103-107: the dictionary appended to \<^verbatim>\<open>eligible_courses\<close>.\<close>

definition eligible_entry :: "pyval \<Rightarrow> pyval \<Rightarrow> exn + pyval" where
  "eligible_entry c prereq_status =
     (case c of
        PDict d \<Rightarrow>
          Inr (PDict (dict_set (dict_set d ''prerequisite_status'' prereq_status)
                               ''eligible'' (PBool True)))
      | _ \<Rightarrow> Inl (TypeError (quoted (type_name c) @ '' object is not a mapping'')))"

text \<open>Line 115: \<^verbatim>\<open>[p['name'] for p in ...]\<close>.\<close>

fun collect_names :: "pyval list \<Rightarrow> exn + pyval list" where
  "collect_names [] = Inr []"
| "collect_names (p # ps) =
     (case py_getitem p ''name'' of
        Inl e \<Rightarrow> Inl e
      | Inr n \<Rightarrow> (case collect_names ps of Inl e \<Rightarrow> Inl e | Inr ns \<Rightarrow> Inr (n # ns)))"

text \<open>Lines 110-116: the dictionary appended to \<^verbatim>\<open>ineligible_courses\<close>.\<close>

definition ineligible_entry :: "pyval \<Rightarrow> pyval \<Rightarrow> exn + pyval" where
  "ineligible_entry c prereq_status =
     (case c of
        PDict d \<Rightarrow>
          (case py_getitem prereq_status ''missing_prerequisites'' of
             Inl e \<Rightarrow> Inl e
           | Inr missing \<Rightarrow>
          (case py_iter missing of
             Inl e \<Rightarrow> Inl e
           | Inr ps \<Rightarrow>
          (case collect_names ps of
             Inl e \<Rightarrow> Inl e
           | Inr ns \<Rightarrow>
          (case py_join '', '' ns of
             Inl e \<Rightarrow> Inl e
           | Inr msg \<Rightarrow>
               Inr (PDict (dict_set (dict_set (dict_set (dict_set d
                      ''prerequisite_status'' prereq_status)
                      ''eligible'' (PBool False))
                      ''missing_prerequisites'' missing)
                      ''prerequisite_message'' (PStr (''Complete one of: '' @ msg))))))))
      | _ \<Rightarrow> Inl (TypeError (quoted (type_name c) @ '' object is not a mapping'')))"

text \<open>
  Lines 93-116, the body of the loop for one course: the flag says which sequence the
  new entry is appended to (True: \<^verbatim>\<open>eligible_courses\<close>).
\<close>

definition check_course ::
  "neo4j_service \<Rightarrow> (pyval \<Rightarrow> string) \<Rightarrow> pyval \<Rightarrow> pyval \<Rightarrow> exn + (bool \<times> pyval)" where
  "check_course neo str_of completed c =
     (case prereq_status_of neo str_of completed c of
        Inl e \<Rightarrow> Inl e
      | Inr prereq_status \<Rightarrow>
     (case py_getitem prereq_status ''prerequisites_met'' of
        Inl e \<Rightarrow> Inl e
      | Inr met \<Rightarrow>
          if truthy met
          then (case eligible_entry c prereq_status of
                  Inl e \<Rightarrow> Inl e | Inr x \<Rightarrow> Inr (True, x))
          else (case ineligible_entry c prereq_status of
                  Inl e \<Rightarrow> Inl e | Inr x \<Rightarrow> Inr (False, x))))"

text \<open>Lines 89-116: the loop, with the two lists it appends to.\<close>

fun search_loop ::
  "neo4j_service \<Rightarrow> (pyval \<Rightarrow> string) \<Rightarrow> pyval \<Rightarrow> pyval list \<Rightarrow> pyval list \<Rightarrow> pyval list
   \<Rightarrow> exn + (pyval list \<times> pyval list)" where
  "search_loop neo str_of completed [] eligible_courses ineligible_courses =
     Inr (eligible_courses, ineligible_courses)"
| "search_loop neo str_of completed (c # rest) eligible_courses ineligible_courses =
     (case check_course neo str_of completed c of
        Inl e \<Rightarrow> Inl e
      | Inr (True, x) \<Rightarrow>
          search_loop neo str_of completed rest (eligible_courses @ [x]) ineligible_courses
      | Inr (False, x) \<Rightarrow>
          search_loop neo str_of completed rest eligible_courses (ineligible_courses @ [x]))"

text \<open>Lines 89-126: the branch that checks prerequisites.\<close>

definition with_prerequisites ::
  "neo4j_service \<Rightarrow> (pyval \<Rightarrow> string) \<Rightarrow> pyval \<Rightarrow> pydict \<Rightarrow> exn + pydict" where
  "with_prerequisites neo str_of completed search_results =
     (case dict_get search_results ''courses'' of
        Inl e \<Rightarrow> Inl e
      | Inr cv \<Rightarrow>
     (case py_iter cv of
        Inl e \<Rightarrow> Inl e
      | Inr cs \<Rightarrow>
     (case search_loop neo str_of completed cs [] [] of
        Inl e \<Rightarrow> Inl e
      | Inr (eligible_courses, ineligible_courses) \<Rightarrow>
          Inr (dict_set (dict_set (dict_set (dict_set (dict_set (dict_set search_results
                 ''eligible_courses'' (PList eligible_courses))
                 ''ineligible_courses'' (PList ineligible_courses))
                 ''prerequisites_checked'' (PBool True))
                 ''user_completed_courses'' completed)
                 ''eligible_count'' (PInt (int (length eligible_courses))))
                 ''ineligible_count'' (PInt (int (length ineligible_courses)))))))"

text \<open>Lines 128-134: the branch that does not.\<close>

definition without_prerequisites :: "pydict \<Rightarrow> exn + pydict" where
  "without_prerequisites search_results =
     (case dict_get search_results ''courses'' of
        Inl e \<Rightarrow> Inl e
      | Inr cv \<Rightarrow>
          (let sr = dict_set (dict_set (dict_set search_results
                      ''eligible_courses'' cv)
                      ''ineligible_courses'' (PList []))
                      ''prerequisites_checked'' (PBool False)
           in case dict_get sr ''courses'' of
                Inl e \<Rightarrow> Inl e
              | Inr cv' \<Rightarrow>
             (case py_len cv' of
                Inl e \<Rightarrow> Inl e
              | Inr n \<Rightarrow>
                  Inr (dict_set (dict_set sr ''eligible_count'' (PInt n))
                                ''ineligible_count'' (PInt 0)))))"

text \<open>
  Lines 70-140, the body of the \<^verbatim>\<open>try\<close>. \<^verbatim>\<open>a and b()\<close> does not call \<open>b\<close> when \<open>a\<close> is
  false. The log line at 136 reads \<^verbatim>\<open>search_results['total_count']\<close> while it builds its
  message, so a result without that key raises KeyError there.
\<close>

definition search_courses_body ::
  "('i, 't) course_search_service \<Rightarrow> neo4j_service \<Rightarrow> (pyval \<Rightarrow> string) \<Rightarrow> string \<Rightarrow> int \<Rightarrow> int
   \<Rightarrow> string option \<Rightarrow> bool \<Rightarrow> user \<Rightarrow> exn + pydict" where
  "search_courses_body svc neo str_of q limit offset major_filter check_prerequisites current_user =
     (let completed = or_empty (completed_courses current_user)
      in case svc_search_courses svc q limit offset major_filter of
           Inl e \<Rightarrow> Inl e
         | Inr search_results \<Rightarrow>
        (case (if check_prerequisites then is_configured neo else Inr False) of
           Inl e \<Rightarrow> Inl e
         | Inr checking \<Rightarrow>
        (case (if checking then with_prerequisites neo str_of completed search_results
               else without_prerequisites search_results) of
           Inl e \<Rightarrow> Inl e
         | Inr sr \<Rightarrow>
        (case dict_get sr ''total_count'' of
           Inl e \<Rightarrow> Inl e
         | Inr n \<Rightarrow> Inr sr))))"

text \<open>Lines 142-148: the two \<^verbatim>\<open>except\<close> clauses.\<close>

definition search_courses ::
  "('i, 't) course_search_service \<Rightarrow> neo4j_service \<Rightarrow> (pyval \<Rightarrow> string) \<Rightarrow> string \<Rightarrow> int \<Rightarrow> int
   \<Rightarrow> string option \<Rightarrow> bool \<Rightarrow> user \<Rightarrow> http_exception + pydict" where
  "search_courses svc neo str_of q limit offset major_filter check_prerequisites current_user =
     (case search_courses_body svc neo str_of q limit offset major_filter
             check_prerequisites current_user of
        Inl (ValueError m) \<Rightarrow> Inl (HTTPException 400 (''Invalid search parameters: '' @ m))
      | Inl e \<Rightarrow> Inl (HTTPException 500 (''Search failed: '' @ exn_str e))
      | Inr search_results \<Rightarrow> Inr search_results)"

section \<open>get_course_by_id and get_courses_by_major\<close>

text \<open>Lines 192-202 and 260-270: the dictionary built from an ORM course.\<close>

definition format_course :: "('i \<Rightarrow> string) \<Rightarrow> ('t \<Rightarrow> string) \<Rightarrow> ('i, 't) course \<Rightarrow> pydict" where
  "format_course str_id isoformat c =
     [(''id'', PStr (str_id (id_attr c))),
      (''course_id'', course_id c),
      (''course_name'', course_name c),
      (''course_description'', course_description c),
      (''major'', major c),
      (''domains'', or_empty (domains c)),
      (''skills_associated'', or_empty (skills_associated c)),
      (''prerequisites'', or_empty (prerequisites c)),
      (''created_at'', (case created_at c of None \<Rightarrow> PNone | Some t \<Rightarrow> PStr (isoformat t)))]"

text \<open>
  Inside the \<^verbatim>\<open>try\<close> of these two handlers an exception is either the HTTPException the
  handler raises itself, which \<^verbatim>\<open>except HTTPException: raise\<close> lets through, or another
  exception, which becomes a 500.
\<close>

datatype raised = Http http_exception | Py exn

definition get_course_by_id_body ::
  "('i, 't) course_search_service \<Rightarrow> ('i \<Rightarrow> string) \<Rightarrow> ('t \<Rightarrow> string) \<Rightarrow> string
   \<Rightarrow> raised + pydict" where
  "get_course_by_id_body svc str_id isoformat cid =
     (case svc_get_course_by_id svc cid of
        Inl e \<Rightarrow> Inl (Py e)
      | Inr None \<Rightarrow>
          Inl (Http (HTTPException 404 (''Course with ID '' @ quoted cid @ '' not found'')))
      | Inr (Some c) \<Rightarrow> Inr (format_course str_id isoformat c))"

definition get_course_by_id ::
  "('i, 't) course_search_service \<Rightarrow> ('i \<Rightarrow> string) \<Rightarrow> ('t \<Rightarrow> string) \<Rightarrow> string
   \<Rightarrow> http_exception + pydict" where
  "get_course_by_id svc str_id isoformat cid =
     (case get_course_by_id_body svc str_id isoformat cid of
        Inl (Http h) \<Rightarrow> Inl h
      | Inl (Py e) \<Rightarrow> Inl (HTTPException 500 (''Failed to retrieve course: '' @ exn_str e))
      | Inr course_data \<Rightarrow> Inr course_data)"

definition valid_majors :: "string list" where
  "valid_majors = [''CSYE'', ''INFO'', ''DAMG'']"

text \<open>Lines 241-281, the body of the \<^verbatim>\<open>try\<close>; \<open>str_upper mj\<close> is \<^verbatim>\<open>major.upper()\<close>.\<close>

definition get_courses_by_major_body ::
  "('i, 't) course_search_service \<Rightarrow> ('i \<Rightarrow> string) \<Rightarrow> ('t \<Rightarrow> string) \<Rightarrow> (string \<Rightarrow> string)
   \<Rightarrow> string \<Rightarrow> int \<Rightarrow> raised + pydict" where
  "get_courses_by_major_body svc str_id isoformat str_upper mj limit =
     (if str_upper mj \<notin> set valid_majors
      then Inl (Http (HTTPException 400
                  (''Invalid major. Must be one of: '' @ join '', '' valid_majors)))
      else case svc_get_courses_by_major svc (str_upper mj) limit of
             Inl e \<Rightarrow> Inl (Py e)
           | Inr courses \<Rightarrow>
               (let formatted_courses = map (\<lambda>c. PDict (format_course str_id isoformat c)) courses
                in Inr [(''major'', PStr (str_upper mj)),
                        (''courses'', PList formatted_courses),
                        (''total_count'', PInt (int (length formatted_courses))),
                        (''limit'', PInt limit)]))"

definition get_courses_by_major ::
  "('i, 't) course_search_service \<Rightarrow> ('i \<Rightarrow> string) \<Rightarrow> ('t \<Rightarrow> string) \<Rightarrow> (string \<Rightarrow> string)
   \<Rightarrow> string \<Rightarrow> int \<Rightarrow> http_exception + pydict" where
  "get_courses_by_major svc str_id isoformat str_upper mj limit =
     (case get_courses_by_major_body svc str_id isoformat str_upper mj limit of
        Inl (Http h) \<Rightarrow> Inl h
      | Inl (Py e) \<Rightarrow> Inl (HTTPException 500 (''Failed to retrieve courses: '' @ exn_str e))
      | Inr response \<Rightarrow> Inr response)"

section \<open>The test of the loop\<close>

text \<open>
  Lines 96-101: whether the graph collaborator reports the prerequisites of a course as
  satisfied, that is, whether \<^verbatim>\<open>prereq_status["prerequisites_met"]\<close> is true.
\<close>

definition prerequisites_met ::
  "neo4j_service \<Rightarrow> (pyval \<Rightarrow> string) \<Rightarrow> pyval \<Rightarrow> pyval \<Rightarrow> bool" where
  "prerequisites_met neo str_of completed c =
     (case prereq_status_of neo str_of completed c of
        Inl e \<Rightarrow> False
      | Inr prereq_status \<Rightarrow>
          (case py_getitem prereq_status ''prerequisites_met'' of
             Inl e \<Rightarrow> False
           | Inr met \<Rightarrow> truthy met))"

section \<open>Example collaborators\<close>

text \<open>
  The examples of the specification: CSYE6200 has no prerequisite, CSYE6225 requires
  CSYE6200. The search collaborator finds both; a second one rejects every query. A graph
  collaborator that is configured, one that is not, and one whose check fails.
\<close>

definition example_search_results :: pydict where
  "example_search_results =
     [(''courses'',
       PList [PDict [(''id'', PStr ''CSYE6200''), (''course_name'', PStr ''Object Oriented Design'')],
              PDict [(''id'', PStr ''CSYE6225''), (''course_name'', PStr ''Cloud Computing'')]]),
      (''total_count'', PInt 2),
      (''has_more'', PBool False)]"

definition example_course :: "(nat, nat) course" where
  "example_course =
     \<lparr>id_attr = 7, course_id = PStr ''CSYE6200'', course_name = PStr ''Object Oriented Design'',
      course_description = PStr ''Java'', major = PStr ''CSYE'', domains = PNone,
      skills_associated = PList [PStr ''Java''], prerequisites = PNone, created_at = None\<rparr>"

definition example_search_service :: "(nat, nat) course_search_service" where
  "example_search_service =
     \<lparr>svc_search_courses = (\<lambda>q limit offset major_filter. Inr example_search_results),
      svc_get_course_by_id = (\<lambda>cid. Inr (if cid = ''CSYE6200'' then Some example_course else None)),
      svc_get_courses_by_major = (\<lambda>mj limit. Inr (if mj = ''CSYE'' then [example_course] else []))\<rparr>"


definition example_status_met :: pyval where
  "example_status_met = PDict [(''prerequisites_met'', PBool True), (''missing_prerequisites'', PList [])]"

definition example_status_missing :: pyval where
  "example_status_missing =
     PDict [(''prerequisites_met'', PBool False),
            (''missing_prerequisites'', PList [PDict [(''name'', PStr ''CSYE6200'')]])]"

definition example_neo4j :: neo4j_service where
  "example_neo4j =
     \<lparr>is_configured = Inr True,
      check_prerequisites_completion = (\<lambda>cid completed.
        if cid = ''CSYE6225'' \<and> completed \<noteq> PList [PStr ''CSYE6200'']
        then Inr example_status_missing else Inr example_status_met)\<rparr>"

definition unconfigured_neo4j :: neo4j_service where
  "unconfigured_neo4j =
     \<lparr>is_configured = Inr False,
      check_prerequisites_completion = (\<lambda>cid completed. Inl (OtherError ''not configured''))\<rparr>"


definition str_of_text :: "pyval \<Rightarrow> string" where
  "str_of_text v = (case v of PStr s \<Rightarrow> s | _ \<Rightarrow> [])"

definition example_checked_response :: pydict where
  "example_checked_response =
     [(''courses'',
       PList [PDict [(''id'', PStr ''CSYE6200''), (''course_name'', PStr ''Object Oriented Design'')],
              PDict [(''id'', PStr ''CSYE6225''), (''course_name'', PStr ''Cloud Computing'')]]),
      (''total_count'', PInt 2),
      (''has_more'', PBool False),
      (''eligible_courses'',
       PList [PDict [(''id'', PStr ''CSYE6200''), (''course_name'', PStr ''Object Oriented Design''),
                     (''prerequisite_status'', example_status_met),
                     (''eligible'', PBool True)]]),
      (''ineligible_courses'',
       PList [PDict [(''id'', PStr ''CSYE6225''), (''course_name'', PStr ''Cloud Computing''),
                     (''prerequisite_status'', example_status_missing),
                     (''eligible'', PBool False),
                     (''missing_prerequisites'', PList [PDict [(''name'', PStr ''CSYE6200'')]]),
                     (''prerequisite_message'', PStr ''Complete one of: CSYE6200'')]]),
      (''prerequisites_checked'', PBool True),
      (''user_completed_courses'', PList []),
      (''eligible_count'', PInt 1),
      (''ineligible_count'', PInt 1)]"

definition example_unchecked_response :: pydict where
  "example_unchecked_response =
     [(''courses'',
       PList [PDict [(''id'', PStr ''CSYE6200''), (''course_name'', PStr ''Object Oriented Design'')],
              PDict [(''id'', PStr ''CSYE6225''), (''course_name'', PStr ''Cloud Computing'')]]),
      (''total_count'', PInt 2),
      (''has_more'', PBool False),
      (''eligible_courses'',
       PList [PDict [(''id'', PStr ''CSYE6200''), (''course_name'', PStr ''Object Oriented Design'')],
              PDict [(''id'', PStr ''CSYE6225''), (''course_name'', PStr ''Cloud Computing'')]]),
      (''ineligible_courses'', PList []),
      (''prerequisites_checked'', PBool False),
      (''eligible_count'', PInt 2),
      (''ineligible_count'', PInt 0)]"

definition example_major_response :: pydict where
  "example_major_response =
     [(''major'', PStr ''CSYE''),
      (''courses'',
       PList [PDict [(''id'', PStr ''7''), (''course_id'', PStr ''CSYE6200''),
                     (''course_name'', PStr ''Object Oriented Design''),
                     (''course_description'', PStr ''Java''),
                     (''major'', PStr ''CSYE''), (''domains'', PList []),
                     (''skills_associated'', PList [PStr ''Java'']),
                     (''prerequisites'', PList []), (''created_at'', PNone)]]),
      (''total_count'', PInt 1),
      (''limit'', PInt 50)]"

section \<open>Auxiliary facts\<close>

lemma dict_get_set: "dict_get (dict_set d k v) k' = (if k' = k then Inr v else dict_get d k')"
  by (simp add: dict_get_def dict_set_def update_conv')

lemma search_loop_Inr:
  "search_loop neo s completed cs el inel = Inr (el', inel') \<Longrightarrow>
   \<exists>rs. list_all2 (\<lambda>c r. check_course neo s completed c = Inr r) cs rs
      \<and> el' = el @ map snd (filter fst rs)
      \<and> inel' = inel @ map snd (filter (\<lambda>r. \<not> fst r) rs)"
proof (induction cs arbitrary: el inel)
  case Nil
  then show ?case by simp
next
  case (Cons c cs)
  from Cons.prems obtain b x where chk: "check_course neo s completed c = Inr (b, x)"
    by (auto split: sum.splits)
  show ?case
  proof (cases b)
    case True
    with Cons.prems chk have "search_loop neo s completed cs (el @ [x]) inel = Inr (el', inel')"
      by simp
    from Cons.IH[OF this] obtain rs where
      "list_all2 (\<lambda>c r. check_course neo s completed c = Inr r) cs rs"
      "el' = (el @ [x]) @ map snd (filter fst rs)"
      "inel' = inel @ map snd (filter (\<lambda>r. \<not> fst r) rs)" by blast
    with chk True show ?thesis
      by (intro exI[of _ "(b, x) # rs"]) simp
  next
    case False
    with Cons.prems chk have "search_loop neo s completed cs el (inel @ [x]) = Inr (el', inel')"
      by simp
    from Cons.IH[OF this] obtain rs where
      "list_all2 (\<lambda>c r. check_course neo s completed c = Inr r) cs rs"
      "el' = el @ map snd (filter fst rs)"
      "inel' = (inel @ [x]) @ map snd (filter (\<lambda>r. \<not> fst r) rs)" by blast
    with chk False show ?thesis
      by (intro exI[of _ "(b, x) # rs"]) simp
  qed
qed

lemma search_courses_Inr:
  "search_courses svc neo s q l off mf chk u = Inr resp \<longleftrightarrow>
   search_courses_body svc neo s q l off mf chk u = Inr resp"
  by (auto simp: search_courses_def split: sum.splits exn.splits)

lemma unchecked_body:
  assumes "\<not> chk \<or> is_configured neo = Inr False"
  shows "search_courses_body svc neo s q l off mf chk u =
     (case svc_search_courses svc q l off mf of
        Inl e \<Rightarrow> Inl e
      | Inr sr \<Rightarrow>
          (case without_prerequisites sr of
             Inl e \<Rightarrow> Inl e
           | Inr sr' \<Rightarrow>
               (case dict_get sr' ''total_count'' of Inl e \<Rightarrow> Inl e | Inr n \<Rightarrow> Inr sr')))"
  using assms by (auto simp: search_courses_body_def split: sum.splits)

lemma without_prerequisites_Inr:
  assumes "without_prerequisites sr = Inr sr'"
  shows "\<exists>cv n. dict_get sr ''courses'' = Inr cv \<and> py_len cv = Inr n
     \<and> sr' = dict_set (dict_set (dict_set (dict_set (dict_set sr
                ''eligible_courses'' cv)
                ''ineligible_courses'' (PList []))
                ''prerequisites_checked'' (PBool False))
                ''eligible_count'' (PInt n))
                ''ineligible_count'' (PInt 0)"
  using assms
  by (auto simp: without_prerequisites_def Let_def dict_get_set split: sum.splits)

lemma checked_body:
  assumes "is_configured neo = Inr True"
      and "search_courses_body svc neo s q l off mf True u = Inr resp"
  shows "\<exists>sr cv cs rs.
       svc_search_courses svc q l off mf = Inr sr
     \<and> dict_get sr ''courses'' = Inr cv \<and> py_iter cv = Inr cs
     \<and> list_all2 (\<lambda>c r. check_course neo s (or_empty (completed_courses u)) c = Inr r) cs rs
     \<and> resp = dict_set (dict_set (dict_set (dict_set (dict_set (dict_set sr
                ''eligible_courses'' (PList (map snd (filter fst rs))))
                ''ineligible_courses'' (PList (map snd (filter (\<lambda>r. \<not> fst r) rs))))
                ''prerequisites_checked'' (PBool True))
                ''user_completed_courses'' (or_empty (completed_courses u)))
                ''eligible_count'' (PInt (int (length (map snd (filter fst rs))))))
                ''ineligible_count'' (PInt (int (length (map snd (filter (\<lambda>r. \<not> fst r) rs)))))"
proof -
  from assms obtain sr where sr: "svc_search_courses svc q l off mf = Inr sr"
    and w: "with_prerequisites neo s (or_empty (completed_courses u)) sr = Inr resp"
    by (auto simp: search_courses_body_def Let_def split: sum.splits)
  from w obtain cv cs el inel where cv: "dict_get sr ''courses'' = Inr cv"
    and cs: "py_iter cv = Inr cs"
    and lp: "search_loop neo s (or_empty (completed_courses u)) cs [] [] = Inr (el, inel)"
    and r: "resp = dict_set (dict_set (dict_set (dict_set (dict_set (dict_set sr
                ''eligible_courses'' (PList el))
                ''ineligible_courses'' (PList inel))
                ''prerequisites_checked'' (PBool True))
                ''user_completed_courses'' (or_empty (completed_courses u)))
                ''eligible_count'' (PInt (int (length el))))
                ''ineligible_count'' (PInt (int (length inel)))"
    by (auto simp: with_prerequisites_def split: sum.splits)
  from search_loop_Inr[OF lp] obtain rs where
    "list_all2 (\<lambda>c r. check_course neo s (or_empty (completed_courses u)) c = Inr r) cs rs"
    "el = map snd (filter fst rs)" "inel = map snd (filter (\<lambda>r. \<not> fst r) rs)"
    by auto
  with sr cv cs r show ?thesis by blast
qed

lemma str_items_Inr: "str_items i xs = Inr ss \<Longrightarrow> xs = map PStr ss"
proof (induction xs arbitrary: i ss)
  case Nil
  then show ?case by simp
next
  case (Cons x xs)
  then show ?case by (cases x) (auto split: sum.splits)
qed

lemma collect_names_Inr:
  "collect_names ps = Inr ns \<Longrightarrow> map (\<lambda>p. py_getitem p ''name'') ps = map Inr ns"
  by (induction ps arbitrary: ns) (auto split: sum.splits)

lemma ineligible_entry_Inr:
  assumes "ineligible_entry c st = Inr x"
  shows "\<exists>d missing ps names. c = PDict d
     \<and> py_getitem st ''missing_prerequisites'' = Inr missing
     \<and> py_iter missing = Inr ps
     \<and> map (\<lambda>p. py_getitem p ''name'') ps = map (\<lambda>n. Inr (PStr n)) names
     \<and> x = PDict (dict_set (dict_set (dict_set (dict_set d
              ''prerequisite_status'' st)
              ''eligible'' (PBool False))
              ''missing_prerequisites'' missing)
              ''prerequisite_message'' (PStr (''Complete one of: '' @ join '', '' names)))"
proof -
  from assms obtain d where d: "c = PDict d"
    by (cases c) (auto simp: ineligible_entry_def)
  from assms d obtain missing ps ns msg where
    m: "py_getitem st ''missing_prerequisites'' = Inr missing"
    and ps: "py_iter missing = Inr ps"
    and ns: "collect_names ps = Inr ns"
    and j: "py_join '', '' ns = Inr msg"
    and x: "x = PDict (dict_set (dict_set (dict_set (dict_set d
              ''prerequisite_status'' st)
              ''eligible'' (PBool False))
              ''missing_prerequisites'' missing)
              ''prerequisite_message'' (PStr (''Complete one of: '' @ msg)))"
    by (auto simp: ineligible_entry_def split: sum.splits)
  from j obtain names where n1: "str_items 0 ns = Inr names" and n2: "msg = join '', '' names"
    by (auto simp: py_join_def split: sum.splits)
  from str_items_Inr[OF n1] collect_names_Inr[OF ns]
  have "map (\<lambda>p. py_getitem p ''name'') ps = map (\<lambda>n. Inr (PStr n)) names"
    by simp
  with d m ps x n2 show ?thesis by blast
qed

lemma eligible_entry_Inr:
  assumes "eligible_entry c st = Inr x"
  shows "\<exists>d. c = PDict d
     \<and> x = PDict (dict_set (dict_set d ''prerequisite_status'' st) ''eligible'' (PBool True))"
  using assms by (cases c) (auto simp: eligible_entry_def)

lemma check_course_Inr:
  assumes "check_course neo s completed c = Inr (b, x)"
  shows "\<exists>st m. prereq_status_of neo s completed c = Inr st
     \<and> py_getitem st ''prerequisites_met'' = Inr m \<and> b = truthy m
     \<and> (if b then eligible_entry c st = Inr x else ineligible_entry c st = Inr x)"
  using assms by (auto simp: check_course_def split: sum.splits if_splits)

lemma check_course_flag:
  "check_course neo s completed c = Inr (b, x) \<Longrightarrow> b = prerequisites_met neo s completed c"
  by (auto simp: prerequisites_met_def dest!: check_course_Inr)

lemma check_course_id:
  assumes "check_course neo s completed c = Inr (b, x)"
  shows "py_getitem x ''id'' = py_getitem c ''id''"
proof -
  from check_course_Inr[OF assms] obtain st where
    e: "if b then eligible_entry c st = Inr x else ineligible_entry c st = Inr x" by blast
  show ?thesis
  proof (cases b)
    case True
    with e eligible_entry_Inr show ?thesis by (fastforce simp: dict_get_set)
  next
    case False
    with e have "ineligible_entry c st = Inr x" by simp
    from ineligible_entry_Inr[OF this] show ?thesis by (auto simp: dict_get_set)
  qed
qed

lemma prerequisites_met_cong:
  "py_getitem c ''id'' = py_getitem c' ''id'' \<Longrightarrow>
   prerequisites_met neo s completed c = prerequisites_met neo s completed c'"
  by (simp add: prerequisites_met_def prereq_status_of_def)

lemma list_all2_filter:
  assumes "list_all2 R xs ys" and "\<And>x y. R x y \<Longrightarrow> P x = Q y"
  shows "list_all2 R (filter P xs) (filter Q ys)"
  using assms by (induction rule: list_all2_induct) auto

lemma list_all2_map_eq:
  assumes "list_all2 R xs ys" and "\<And>x y. R x y \<Longrightarrow> f x = g y"
  shows "map f xs = map g ys"
  using assms by (induction rule: list_all2_induct) auto

lemma checked_response_fields:
  assumes "resp = dict_set (dict_set (dict_set (dict_set (dict_set (dict_set sr
                ''eligible_courses'' a)
                ''ineligible_courses'' b)
                ''prerequisites_checked'' c)
                ''user_completed_courses'' d)
                ''eligible_count'' e)
                ''ineligible_count'' f"
  shows "dict_get resp ''eligible_courses'' = Inr a"
    and "dict_get resp ''ineligible_courses'' = Inr b"
    and "dict_get resp ''prerequisites_checked'' = Inr c"
    and "dict_get resp ''user_completed_courses'' = Inr d"
    and "dict_get resp ''eligible_count'' = Inr e"
    and "dict_get resp ''ineligible_count'' = Inr f"
  unfolding assms by (simp_all add: dict_get_set)

lemma check_course_flag': "check_course neo s completed c = Inr r \<Longrightarrow> prerequisites_met neo s completed c = fst r"
  using check_course_flag[of neo s completed c "fst r" "snd r"] by simp

lemma check_course_id': "check_course neo s completed c = Inr r \<Longrightarrow> py_getitem c ''id'' = py_getitem (snd r) ''id''"
  using check_course_id[of neo s completed c "fst r" "snd r"] by simp

lemma id_in_filter:
  assumes "c \<in> set cs"
  shows "py_getitem c ''id'' \<in> set (map (\<lambda>c. py_getitem c ''id'') (filter (prerequisites_met neo s completed) cs))
         \<longleftrightarrow> prerequisites_met neo s completed c"
proof
  assume "py_getitem c ''id'' \<in> set (map (\<lambda>c. py_getitem c ''id'') (filter (prerequisites_met neo s completed) cs))"
  then obtain c' where "c' \<in> set cs" "prerequisites_met neo s completed c'"
    "py_getitem c ''id'' = py_getitem c' ''id''" by auto
  then show "prerequisites_met neo s completed c"
    using prerequisites_met_cong[of c c' neo s completed] by simp
next
  assume "prerequisites_met neo s completed c"
  with assms have "c \<in> set (filter (prerequisites_met neo s completed) cs)" by simp
  then show "py_getitem c ''id'' \<in> set (map (\<lambda>c. py_getitem c ''id'') (filter (prerequisites_met neo s completed) cs))"
    by (metis (no_types, lifting) image_eqI set_map)
qed

lemma id_in_filter_not:
  assumes "c \<in> set cs"
  shows "py_getitem c ''id'' \<in> set (map (\<lambda>c. py_getitem c ''id'') (filter (\<lambda>c. \<not> prerequisites_met neo s completed c) cs))
         \<longleftrightarrow> \<not> prerequisites_met neo s completed c"
proof
  assume "py_getitem c ''id'' \<in> set (map (\<lambda>c. py_getitem c ''id'') (filter (\<lambda>c. \<not> prerequisites_met neo s completed c) cs))"
  then obtain c' where "c' \<in> set cs" "\<not> prerequisites_met neo s completed c'"
    "py_getitem c ''id'' = py_getitem c' ''id''" by auto
  then show "\<not> prerequisites_met neo s completed c"
    using prerequisites_met_cong[of c c' neo s completed] by simp
next
  assume "\<not> prerequisites_met neo s completed c"
  with assms have "c \<in> set (filter (\<lambda>c. \<not> prerequisites_met neo s completed c) cs)" by simp
  then show "py_getitem c ''id'' \<in> set (map (\<lambda>c. py_getitem c ''id'') (filter (\<lambda>c. \<not> prerequisites_met neo s completed c) cs))"
    by (metis (no_types, lifting) image_eqI set_map)
qed

lemma unchecked_response_fields:
  assumes "resp = dict_set (dict_set (dict_set (dict_set (dict_set sr
                ''eligible_courses'' a)
                ''ineligible_courses'' b)
                ''prerequisites_checked'' c)
                ''eligible_count'' e)
                ''ineligible_count'' f"
  shows "dict_get resp ''eligible_courses'' = Inr a"
    and "dict_get resp ''ineligible_courses'' = Inr b"
    and "dict_get resp ''prerequisites_checked'' = Inr c"
    and "dict_get resp ''eligible_count'' = Inr e"
    and "dict_get resp ''ineligible_count'' = Inr f"
    and "dict_get resp ''courses'' = dict_get sr ''courses''"
  unfolding assms by (simp_all add: dict_get_set)

lemma prereq_status_of_agree:
  assumes "\<And>cid. check_prerequisites_completion neo cid completed =
                  check_prerequisites_completion neo' cid completed"
  shows "prereq_status_of neo s completed c = prereq_status_of neo' s completed c"
  using assms by (simp add: prereq_status_of_def split: sum.splits)

lemma check_course_agree:
  assumes "\<And>cid. check_prerequisites_completion neo cid completed =
                  check_prerequisites_completion neo' cid completed"
  shows "check_course neo s completed c = check_course neo' s completed c"
  using prereq_status_of_agree[OF assms] by (simp add: check_course_def)

lemma search_loop_agree:
  assumes "\<And>cid. check_prerequisites_completion neo cid completed =
                  check_prerequisites_completion neo' cid completed"
  shows "search_loop neo s completed cs el inel = search_loop neo' s completed cs el inel"
  using check_course_agree[OF assms]
  by (induction cs arbitrary: el inel) (simp_all split: sum.splits prod.splits bool.splits)

lemma search_courses_body_agree:
  assumes "is_configured neo = is_configured neo'"
      and "\<And>cid. check_prerequisites_completion neo cid (or_empty (completed_courses u)) =
                  check_prerequisites_completion neo' cid (or_empty (completed_courses u))"
  shows "search_courses_body svc neo s q l off mf chk u =
         search_courses_body svc neo' s q l off mf chk u"
proof -
  have "with_prerequisites neo s (or_empty (completed_courses u)) sr =
        with_prerequisites neo' s (or_empty (completed_courses u)) sr" for sr
    using search_loop_agree[of neo "or_empty (completed_courses u)" neo', OF assms(2)]
    by (simp add: with_prerequisites_def cong: sum.case_cong)
  with assms(1) show ?thesis
    by (simp add: search_courses_body_def cong: sum.case_cong if_cong)
qed

lemma list_all2_filter_flag:
  assumes "list_all2 R xs ys" and "\<And>x y. R x y \<Longrightarrow> P x = Q y"
  shows "list_all2 (\<lambda>x y. R x y \<and> Q y) (filter P xs) (filter Q ys)"
  using assms by (induction rule: list_all2_induct) auto

lemma checked_entries:
  assumes rs: "list_all2 (\<lambda>c r. check_course neo s completed c = Inr r) cs rs"
  shows "list_all2 (\<lambda>c e. check_course neo s completed c = Inr (True, e))
           (filter (prerequisites_met neo s completed) cs) (map snd (filter fst rs))"
    and "list_all2 (\<lambda>c e. check_course neo s completed c = Inr (False, e))
           (filter (\<lambda>c. \<not> prerequisites_met neo s completed c) cs)
           (map snd (filter (\<lambda>r. \<not> fst r) rs))"
proof -
  have "list_all2 (\<lambda>c r. check_course neo s completed c = Inr r \<and> fst r)
          (filter (prerequisites_met neo s completed) cs) (filter fst rs)"
    by (rule list_all2_filter_flag[OF rs]) (simp add: check_course_flag')
  then have "list_all2 (\<lambda>c r. check_course neo s completed c = Inr (True, snd r))
          (filter (prerequisites_met neo s completed) cs) (filter fst rs)"
    by (rule list_all2_mono) (metis prod.collapse)
  then show "list_all2 (\<lambda>c e. check_course neo s completed c = Inr (True, e))
           (filter (prerequisites_met neo s completed) cs) (map snd (filter fst rs))"
    by (simp add: list_all2_map2)
next
  have "list_all2 (\<lambda>c r. check_course neo s completed c = Inr r \<and> \<not> fst r)
          (filter (\<lambda>c. \<not> prerequisites_met neo s completed c) cs) (filter (\<lambda>r. \<not> fst r) rs)"
    by (rule list_all2_filter_flag[OF rs]) (simp add: check_course_flag')
  then have "list_all2 (\<lambda>c r. check_course neo s completed c = Inr (False, snd r))
          (filter (\<lambda>c. \<not> prerequisites_met neo s completed c) cs) (filter (\<lambda>r. \<not> fst r) rs)"
    by (rule list_all2_mono) (metis prod.collapse)
  then show "list_all2 (\<lambda>c e. check_course neo s completed c = Inr (False, e))
           (filter (\<lambda>c. \<not> prerequisites_met neo s completed c) cs)
           (map snd (filter (\<lambda>r. \<not> fst r) rs))"
    by (simp add: list_all2_map2)
qed

lemma check_course_eligible:
  assumes "check_course neo s completed c = Inr (True, e)"
  shows "\<exists>d st. c = PDict d \<and> prereq_status_of neo s completed c = Inr st
     \<and> e = PDict (dict_set (dict_set d ''prerequisite_status'' st) ''eligible'' (PBool True))"
proof -
  from check_course_Inr[OF assms] obtain st where
    st: "prereq_status_of neo s completed c = Inr st" and e: "eligible_entry c st = Inr e"
    by auto
  from eligible_entry_Inr[OF e] st show ?thesis by blast
qed

lemma check_course_ineligible:
  assumes "check_course neo s completed c = Inr (False, e)"
  shows "\<exists>d st missing ps names. c = PDict d
     \<and> prereq_status_of neo s completed c = Inr st
     \<and> py_getitem st ''missing_prerequisites'' = Inr missing
     \<and> py_iter missing = Inr ps
     \<and> map (\<lambda>p. py_getitem p ''name'') ps = map (\<lambda>n. Inr (PStr n)) names
     \<and> e = PDict (dict_set (dict_set (dict_set (dict_set d
              ''prerequisite_status'' st)
              ''eligible'' (PBool False))
              ''missing_prerequisites'' missing)
              ''prerequisite_message'' (PStr (''Complete one of: '' @ join '', '' names)))"
proof -
  from check_course_Inr[OF assms] obtain st where
    st: "prereq_status_of neo s completed c = Inr st" and e: "ineligible_entry c st = Inr e"
    by auto
  from ineligible_entry_Inr[OF e] st show ?thesis by blast
qed



lemma format_course_fields:
  "dict_get (format_course str_id isoformat c) ''id'' = Inr (PStr (str_id (id_attr c)))"
  "dict_get (format_course str_id isoformat c) ''course_id'' = Inr (course_id c)"
  "dict_get (format_course str_id isoformat c) ''course_name'' = Inr (course_name c)"
  "dict_get (format_course str_id isoformat c) ''course_description'' = Inr (course_description c)"
  "dict_get (format_course str_id isoformat c) ''major'' = Inr (major c)"
  "dict_get (format_course str_id isoformat c) ''domains''
     = Inr (if truthy (domains c) then domains c else PList [])"
  "dict_get (format_course str_id isoformat c) ''skills_associated''
     = Inr (if truthy (skills_associated c) then skills_associated c else PList [])"
  "dict_get (format_course str_id isoformat c) ''prerequisites''
     = Inr (if truthy (prerequisites c) then prerequisites c else PList [])"
  "dict_get (format_course str_id isoformat c) ''created_at''
     = Inr (case created_at c of None \<Rightarrow> PNone | Some t \<Rightarrow> PStr (isoformat t))"
  "map fst (format_course str_id isoformat c) =
     [''id'', ''course_id'', ''course_name'', ''course_description'', ''major'', ''domains'',
      ''skills_associated'', ''prerequisites'', ''created_at'']"
  by (simp_all add: format_course_def dict_get_def or_empty_def)

lemma join_valid_majors: "join '', '' valid_majors = ''CSYE, INFO, DAMG''"
  by (simp add: valid_majors_def)

lemma ascii_upper_examples:
  "ascii_upper ''csye'' = ''CSYE''" "ascii_upper ''CSYE'' = ''CSYE''"
  "ascii_upper ''xyz'' = ''XYZ''"
  by code_simp+

lemma ascii_examples:
  "list_all is_ascii ''csye''" "list_all is_ascii ''CSYE''" "list_all is_ascii ''xyz''"
  by code_simp+

lemma get_courses_by_major_upper:
  "str_upper m1 = str_upper m2 \<Longrightarrow>
   get_courses_by_major svc str_id isoformat str_upper m1 limit =
   get_courses_by_major svc str_id isoformat str_upper m2 limit"
  by (simp add: get_courses_by_major_def get_courses_by_major_body_def
        cong: sum.case_cong if_cong)

lemma get_courses_by_major_invalid:
  assumes "str_upper mj \<notin> {''CSYE'', ''INFO'', ''DAMG''}"
  shows "get_courses_by_major svc str_id isoformat str_upper mj limit =
           Inl (HTTPException 400 ''Invalid major. Must be one of: CSYE, INFO, DAMG'')"
proof -
  from assms have "str_upper mj \<notin> set valid_majors" by (simp add: valid_majors_def)
  then show ?thesis
    by (simp add: get_courses_by_major_def get_courses_by_major_body_def join_valid_majors)
qed

lemma get_courses_by_major_valid:
  assumes "str_upper mj \<in> {''CSYE'', ''INFO'', ''DAMG''}"
  shows "get_courses_by_major svc str_id isoformat str_upper mj limit =
           (case svc_get_courses_by_major svc (str_upper mj) limit of
              Inl e \<Rightarrow> Inl (HTTPException 500 (''Failed to retrieve courses: '' @ exn_str e))
            | Inr courses \<Rightarrow>
                Inr [(''major'', PStr (str_upper mj)),
                     (''courses'',
                      PList (map (\<lambda>c. PDict (format_course str_id isoformat c)) courses)),
                     (''total_count'', PInt (int (length courses))),
                     (''limit'', PInt limit)])"
proof -
  from assms have "str_upper mj \<in> set valid_majors" by (simp add: valid_majors_def)
  then show ?thesis
    by (simp add: get_courses_by_major_def get_courses_by_major_body_def Let_def
             split: sum.splits)
qed
















lemma example_configured: "is_configured example_neo4j = Inr True"
  by (simp add: example_neo4j_def)

lemma example_unconfigured: "is_configured unconfigured_neo4j = Inr False"
  by (simp add: unconfigured_neo4j_def)

lemma example_search:
  "svc_search_courses example_search_service q limit offset mf = Inr example_search_results"
  by (simp add: example_search_service_def)

lemma example_checked:
  "search_courses example_search_service example_neo4j str_of_text ''CSYE'' 5 0 None True
     \<lparr>completed_courses = PNone\<rparr> = Inr example_checked_response"
  by code_simp

lemma example_unchecked:
  "search_courses example_search_service unconfigured_neo4j str_of_text ''CSYE'' 5 0 None True
     \<lparr>completed_courses = PNone\<rparr> = Inr example_unchecked_response"
  by code_simp

lemma example_by_major:
  "get_courses_by_major example_search_service nat_str nat_str ascii_upper ''csye'' 50
     = Inr example_major_response"
  by code_simp

section \<open>The claims\<close>

text \<open>
  Claim C1. With prerequisite checking enabled (\<open>check_prerequisites\<close> true and the
  graph collaborator configured), a successful search puts every course the search
  collaborator returned into exactly one of \<open>eligible_courses\<close> and \<open>ineligible_courses\<close>:
  the identifiers of the eligible entries are, in order, those of the courses whose
  prerequisites are reported met, the identifiers of the ineligible entries those of the
  other courses, and no course's identifier occurs in both. \<open>eligible_count\<close> and
  \<open>ineligible_count\<close> are the lengths of the two sequences and add up to the number of
  courses returned.
\<close>

theorem search_courses_partition:
  assumes cfg: "is_configured neo = Inr True"
      and ok: "search_courses svc neo str_of q limit offset mf True u = Inr resp"
  shows "\<exists>sr cv cs el inel.
       svc_search_courses svc q limit offset mf = Inr sr
     \<and> dict_get sr ''courses'' = Inr cv \<and> py_iter cv = Inr cs
     \<and> dict_get resp ''eligible_courses'' = Inr (PList el)
     \<and> dict_get resp ''ineligible_courses'' = Inr (PList inel)
     \<and> dict_get resp ''eligible_count'' = Inr (PInt (int (length el)))
     \<and> dict_get resp ''ineligible_count'' = Inr (PInt (int (length inel)))
     \<and> length el + length inel = length cs
     \<and> map (\<lambda>e. py_getitem e ''id'') el =
         map (\<lambda>c. py_getitem c ''id'')
           (filter (prerequisites_met neo str_of (or_empty (completed_courses u))) cs)
     \<and> map (\<lambda>e. py_getitem e ''id'') inel =
         map (\<lambda>c. py_getitem c ''id'')
           (filter (\<lambda>c. \<not> prerequisites_met neo str_of (or_empty (completed_courses u)) c) cs)
     \<and> (\<forall>c \<in> set cs.
           (py_getitem c ''id'' \<in> set (map (\<lambda>e. py_getitem e ''id'') el)) \<noteq>
           (py_getitem c ''id'' \<in> set (map (\<lambda>e. py_getitem e ''id'') inel)))"
proof -
  let ?comp = "or_empty (completed_courses u)"
  let ?met = "prerequisites_met neo str_of ?comp"
  let ?R = "\<lambda>c r. check_course neo str_of ?comp c = Inr r"
  from ok have "search_courses_body svc neo str_of q limit offset mf True u = Inr resp"
    by (simp add: search_courses_Inr)
  from checked_body[OF cfg this] obtain sr cv cs rs where
    sr: "svc_search_courses svc q limit offset mf = Inr sr"
    and cv: "dict_get sr ''courses'' = Inr cv" and cs: "py_iter cv = Inr cs"
    and rs: "list_all2 ?R cs rs"
    and resp: "resp = dict_set (dict_set (dict_set (dict_set (dict_set (dict_set sr
                ''eligible_courses'' (PList (map snd (filter fst rs))))
                ''ineligible_courses'' (PList (map snd (filter (\<lambda>r. \<not> fst r) rs))))
                ''prerequisites_checked'' (PBool True))
                ''user_completed_courses'' ?comp)
                ''eligible_count'' (PInt (int (length (map snd (filter fst rs))))))
                ''ineligible_count'' (PInt (int (length (map snd (filter (\<lambda>r. \<not> fst r) rs)))))"
    by blast
  define el where "el = map snd (filter fst rs)"
  define inel where "inel = map snd (filter (\<lambda>r. \<not> fst r) rs)"
  note fields = checked_response_fields[OF resp, folded el_def inel_def]
  have len: "length el + length inel = length cs"
    using list_all2_lengthD[OF rs] sum_length_filter_compl[of fst rs]
    by (simp add: el_def inel_def)
  have f1: "list_all2 ?R (filter ?met cs) (filter fst rs)"
    by (rule list_all2_filter[OF rs]) (simp add: check_course_flag')
  have f2: "list_all2 ?R (filter (\<lambda>c. \<not> ?met c) cs) (filter (\<lambda>r. \<not> fst r) rs)"
    by (rule list_all2_filter[OF rs]) (simp add: check_course_flag')
  have i1: "map (\<lambda>e. py_getitem e ''id'') el = map (\<lambda>c. py_getitem c ''id'') (filter ?met cs)"
    unfolding el_def map_map comp_def
    by (rule sym, rule list_all2_map_eq[OF f1]) (rule check_course_id')
  have i2: "map (\<lambda>e. py_getitem e ''id'') inel =
            map (\<lambda>c. py_getitem c ''id'') (filter (\<lambda>c. \<not> ?met c) cs)"
    unfolding inel_def map_map comp_def
    by (rule sym, rule list_all2_map_eq[OF f2]) (rule check_course_id')
  have x: "\<forall>c \<in> set cs.
           (py_getitem c ''id'' \<in> set (map (\<lambda>e. py_getitem e ''id'') el)) \<noteq>
           (py_getitem c ''id'' \<in> set (map (\<lambda>e. py_getitem e ''id'') inel))"
  proof
    fix c assume c: "c \<in> set cs"
    show "(py_getitem c ''id'' \<in> set (map (\<lambda>e. py_getitem e ''id'') el)) \<noteq>
           (py_getitem c ''id'' \<in> set (map (\<lambda>e. py_getitem e ''id'') inel))"
      unfolding i1 i2 id_in_filter[OF c] id_in_filter_not[OF c] by simp
  qed
  show ?thesis
    apply (rule exI[of _ sr], rule exI[of _ cv], rule exI[of _ cs])
    apply (rule exI[of _ el], rule exI[of _ inel])
    apply (intro conjI)
    apply (rule sr cv cs fields(1) fields(2) fields(5) fields(6) len i1 i2 x)+
    done
qed

text \<open>The example request: two courses found, one eligible and one not.\<close>

theorem search_courses_partition_witness:
  "is_configured example_neo4j = Inr True
 \<and> search_courses example_search_service example_neo4j str_of_text ''CSYE'' 5 0 None True
      \<lparr>completed_courses = PNone\<rparr> = Inr example_checked_response
 \<and> (\<exists>el inel.
       dict_get example_checked_response ''eligible_courses'' = Inr (PList el)
     \<and> dict_get example_checked_response ''ineligible_courses'' = Inr (PList inel)
     \<and> dict_get example_checked_response ''eligible_count'' = Inr (PInt (int (length el)))
     \<and> dict_get example_checked_response ''ineligible_count'' = Inr (PInt (int (length inel)))
     \<and> length el + length inel = 2)"
proof -
  from search_courses_partition[OF example_configured example_checked]
  obtain sr cv cs el inel where
    sr: "svc_search_courses example_search_service ''CSYE'' 5 0 None = Inr sr"
    and cv: "dict_get sr ''courses'' = Inr cv" and cs: "py_iter cv = Inr cs"
    and r: "dict_get example_checked_response ''eligible_courses'' = Inr (PList el)"
      "dict_get example_checked_response ''ineligible_courses'' = Inr (PList inel)"
      "dict_get example_checked_response ''eligible_count'' = Inr (PInt (int (length el)))"
      "dict_get example_checked_response ''ineligible_count'' = Inr (PInt (int (length inel)))"
    and len: "length el + length inel = length cs"
    by blast
  from sr have "sr = example_search_results" by (simp add: example_search)
  with cv cs have "length cs = 2"
    by (auto simp: example_search_results_def dict_get_def)
  with len r example_configured example_checked show ?thesis by auto
qed

text \<open>
  Claim C2. When prerequisite checking is skipped (\<open>check_prerequisites\<close> false) or
  the graph collaborator reports itself unconfigured, a successful search answers with
  \<open>eligible_courses\<close> equal to the value under \<open>courses\<close> of the search result, unchanged,
  \<open>ineligible_courses\<close> empty, \<open>prerequisites_checked\<close> false, \<open>ineligible_count\<close> 0
  and \<open>eligible_count\<close> the length of that list. (The total the claim speaks of is the
  number of courses in the returned list.)
\<close>

theorem search_courses_unchecked:
  assumes skip: "\<not> check_prerequisites \<or> is_configured neo = Inr False"
      and ok: "search_courses svc neo str_of q limit offset mf check_prerequisites u = Inr resp"
  shows "\<exists>sr cv n.
       svc_search_courses svc q limit offset mf = Inr sr
     \<and> dict_get sr ''courses'' = Inr cv \<and> py_len cv = Inr n
     \<and> dict_get resp ''courses'' = Inr cv
     \<and> dict_get resp ''eligible_courses'' = Inr cv
     \<and> dict_get resp ''ineligible_courses'' = Inr (PList [])
     \<and> dict_get resp ''prerequisites_checked'' = Inr (PBool False)
     \<and> dict_get resp ''eligible_count'' = Inr (PInt n)
     \<and> dict_get resp ''ineligible_count'' = Inr (PInt 0)"
proof -
  from ok have b: "search_courses_body svc neo str_of q limit offset mf check_prerequisites u = Inr resp"
    by (simp add: search_courses_Inr)
  from b obtain sr where sr: "svc_search_courses svc q limit offset mf = Inr sr"
    and w: "without_prerequisites sr = Inr resp"
    unfolding unchecked_body[OF skip] by (auto split: sum.splits)
  from without_prerequisites_Inr[OF w] obtain cv n where
    cv: "dict_get sr ''courses'' = Inr cv" and n: "py_len cv = Inr n"
    and resp: "resp = dict_set (dict_set (dict_set (dict_set (dict_set sr
                ''eligible_courses'' cv)
                ''ineligible_courses'' (PList []))
                ''prerequisites_checked'' (PBool False))
                ''eligible_count'' (PInt n))
                ''ineligible_count'' (PInt 0)" by blast
  note fields = unchecked_response_fields[OF resp]
  show ?thesis
    apply (rule exI[of _ sr], rule exI[of _ cv], rule exI[of _ n])
    apply (intro conjI)
    apply (rule sr cv n fields(1) fields(2) fields(3) fields(4) fields(5))+
    apply (simp add: fields(6) cv)
    apply (rule sr cv n fields(1) fields(2) fields(3) fields(4) fields(5))+
    done
qed

text \<open>The example request against an unconfigured graph collaborator.\<close>

theorem search_courses_unchecked_witness:
  "is_configured unconfigured_neo4j = Inr False
 \<and> search_courses example_search_service unconfigured_neo4j str_of_text ''CSYE'' 5 0 None True
      \<lparr>completed_courses = PNone\<rparr> = Inr example_unchecked_response
 \<and> (\<exists>cv. dict_get example_search_results ''courses'' = Inr cv
     \<and> dict_get example_unchecked_response ''eligible_courses'' = Inr cv
     \<and> dict_get example_unchecked_response ''ineligible_courses'' = Inr (PList [])
     \<and> dict_get example_unchecked_response ''prerequisites_checked'' = Inr (PBool False)
     \<and> dict_get example_unchecked_response ''eligible_count'' = Inr (PInt 2)
     \<and> dict_get example_unchecked_response ''ineligible_count'' = Inr (PInt 0))"
proof -
  have skip: "\<not> True \<or> is_configured unconfigured_neo4j = Inr False"
    by (simp add: example_unconfigured)
  from search_courses_unchecked[OF skip example_unchecked]
  obtain sr cv n where
    sr: "svc_search_courses example_search_service ''CSYE'' 5 0 None = Inr sr"
    and cv: "dict_get sr ''courses'' = Inr cv" and n: "py_len cv = Inr n"
    and r: "dict_get example_unchecked_response ''eligible_courses'' = Inr cv"
      "dict_get example_unchecked_response ''ineligible_courses'' = Inr (PList [])"
      "dict_get example_unchecked_response ''prerequisites_checked'' = Inr (PBool False)"
      "dict_get example_unchecked_response ''eligible_count'' = Inr (PInt n)"
      "dict_get example_unchecked_response ''ineligible_count'' = Inr (PInt 0)"
    by blast
  from sr have s: "sr = example_search_results" by (simp add: example_search)
  with cv n have "n = 2"
    by (auto simp: example_search_results_def dict_get_def)
  with cv r s example_unconfigured example_unchecked show ?thesis by auto
qed



text \<open>
  Claim C4. When the graph collaborator reports itself unconfigured, the outcome of a
  search request (response or error) is the same with \<open>check_prerequisites\<close> true as with
  \<open>check_prerequisites\<close> false.
\<close>

theorem search_courses_unconfigured:
  assumes "is_configured neo = Inr False"
  shows "search_courses svc neo str_of q limit offset mf True u =
         search_courses svc neo str_of q limit offset mf False u"
proof -
  have "search_courses_body svc neo str_of q limit offset mf True u =
        search_courses_body svc neo str_of q limit offset mf False u"
    using assms by (simp add: unchecked_body)
  then show ?thesis by (simp add: search_courses_def)
qed

text \<open>The example request against an unconfigured graph collaborator.\<close>

theorem search_courses_unconfigured_witness:
  "is_configured unconfigured_neo4j = Inr False
 \<and> search_courses example_search_service unconfigured_neo4j str_of_text ''CSYE'' 5 0 None True
      \<lparr>completed_courses = PNone\<rparr>
   = search_courses example_search_service unconfigured_neo4j str_of_text ''CSYE'' 5 0 None False
      \<lparr>completed_courses = PNone\<rparr>"
  using search_courses_unconfigured[OF example_unconfigured] example_unconfigured
  by simp

text \<open>
  Claim C5. With prerequisite checking enabled, the entries of \<open>ineligible_courses\<close>
  correspond one to one, in order, to the courses whose prerequisites are reported not
  satisfied; the entry of such a course is the course's dictionary with
  \<open>prerequisite_status\<close> set to the reported status, \<open>eligible\<close> set to false,
  \<open>missing_prerequisites\<close> set to the status's list of missing prerequisites and
  \<open>prerequisite_message\<close> set to \<open>Complete one of: \<close> followed by the names of the
  missing prerequisites joined with a comma and a space.
\<close>

theorem search_courses_ineligible_entries:
  assumes cfg: "is_configured neo = Inr True"
      and ok: "search_courses svc neo str_of q limit offset mf True u = Inr resp"
  shows "\<exists>sr cv cs inel.
       svc_search_courses svc q limit offset mf = Inr sr
     \<and> dict_get sr ''courses'' = Inr cv \<and> py_iter cv = Inr cs
     \<and> dict_get resp ''ineligible_courses'' = Inr (PList inel)
     \<and> list_all2
         (\<lambda>c e. \<exists>d st missing ps names.
            c = PDict d
          \<and> prereq_status_of neo str_of (or_empty (completed_courses u)) c = Inr st
          \<and> py_getitem st ''missing_prerequisites'' = Inr missing
          \<and> py_iter missing = Inr ps
          \<and> map (\<lambda>p. py_getitem p ''name'') ps = map (\<lambda>n. Inr (PStr n)) names
          \<and> e = PDict (dict_set (dict_set (dict_set (dict_set d
                   ''prerequisite_status'' st)
                   ''eligible'' (PBool False))
                   ''missing_prerequisites'' missing)
                   ''prerequisite_message''
                      (PStr (''Complete one of: '' @ join '', '' names))))
         (filter (\<lambda>c. \<not> prerequisites_met neo str_of (or_empty (completed_courses u)) c) cs)
         inel"
proof -
  let ?comp = "or_empty (completed_courses u)"
  from ok have "search_courses_body svc neo str_of q limit offset mf True u = Inr resp"
    by (simp add: search_courses_Inr)
  from checked_body[OF cfg this] obtain sr cv cs rs where
    sr: "svc_search_courses svc q limit offset mf = Inr sr"
    and cv: "dict_get sr ''courses'' = Inr cv" and cs: "py_iter cv = Inr cs"
    and rs: "list_all2 (\<lambda>c r. check_course neo str_of ?comp c = Inr r) cs rs"
    and resp: "resp = dict_set (dict_set (dict_set (dict_set (dict_set (dict_set sr
                ''eligible_courses'' (PList (map snd (filter fst rs))))
                ''ineligible_courses'' (PList (map snd (filter (\<lambda>r. \<not> fst r) rs))))
                ''prerequisites_checked'' (PBool True))
                ''user_completed_courses'' ?comp)
                ''eligible_count'' (PInt (int (length (map snd (filter fst rs))))))
                ''ineligible_count'' (PInt (int (length (map snd (filter (\<lambda>r. \<not> fst r) rs)))))"
    by blast
  define inel where "inel = map snd (filter (\<lambda>r. \<not> fst r) rs)"
  note fields = checked_response_fields[OF resp, folded inel_def]
  have "list_all2 (\<lambda>c e. check_course neo str_of ?comp c = Inr (False, e))
           (filter (\<lambda>c. \<not> prerequisites_met neo str_of ?comp c) cs) inel"
    unfolding inel_def by (rule checked_entries(2)[OF rs])
  then have entries: "list_all2
         (\<lambda>c e. \<exists>d st missing ps names.
            c = PDict d
          \<and> prereq_status_of neo str_of ?comp c = Inr st
          \<and> py_getitem st ''missing_prerequisites'' = Inr missing
          \<and> py_iter missing = Inr ps
          \<and> map (\<lambda>p. py_getitem p ''name'') ps = map (\<lambda>n. Inr (PStr n)) names
          \<and> e = PDict (dict_set (dict_set (dict_set (dict_set d
                   ''prerequisite_status'' st)
                   ''eligible'' (PBool False))
                   ''missing_prerequisites'' missing)
                   ''prerequisite_message''
                      (PStr (''Complete one of: '' @ join '', '' names))))
         (filter (\<lambda>c. \<not> prerequisites_met neo str_of ?comp c) cs) inel"
    by (rule list_all2_mono) (rule check_course_ineligible)
  show ?thesis
    apply (rule exI[of _ sr], rule exI[of _ cv], rule exI[of _ cs], rule exI[of _ inel])
    apply (intro conjI)
    apply (rule sr cv cs fields(2) entries)+
    done
qed

text \<open>The example request: CSYE6225 requires CSYE6200, which the caller has not completed.\<close>

theorem search_courses_ineligible_entries_witness:
  "is_configured example_neo4j = Inr True
 \<and> search_courses example_search_service example_neo4j str_of_text ''CSYE'' 5 0 None True
      \<lparr>completed_courses = PNone\<rparr> = Inr example_checked_response
 \<and> (\<exists>cv cs inel.
       dict_get example_search_results ''courses'' = Inr cv \<and> py_iter cv = Inr cs
     \<and> dict_get example_checked_response ''ineligible_courses'' = Inr (PList inel)
     \<and> length inel = length
         (filter (\<lambda>c. \<not> prerequisites_met example_neo4j str_of_text
                        (or_empty (completed_courses \<lparr>completed_courses = PNone\<rparr>)) c) cs))"
proof -
  from search_courses_ineligible_entries[OF example_configured example_checked]
  obtain sr cv cs inel where
    sr: "svc_search_courses example_search_service ''CSYE'' 5 0 None = Inr sr"
    and cv: "dict_get sr ''courses'' = Inr cv" and cs: "py_iter cv = Inr cs"
    and r: "dict_get example_checked_response ''ineligible_courses'' = Inr (PList inel)"
    and l: "list_all2
         (\<lambda>c e. \<exists>d st missing ps names.
            c = PDict d
          \<and> prereq_status_of example_neo4j str_of_text
               (or_empty (completed_courses \<lparr>completed_courses = PNone\<rparr>)) c = Inr st
          \<and> py_getitem st ''missing_prerequisites'' = Inr missing
          \<and> py_iter missing = Inr ps
          \<and> map (\<lambda>p. py_getitem p ''name'') ps = map (\<lambda>n. Inr (PStr n)) names
          \<and> e = PDict (dict_set (dict_set (dict_set (dict_set d
                   ''prerequisite_status'' st)
                   ''eligible'' (PBool False))
                   ''missing_prerequisites'' missing)
                   ''prerequisite_message''
                      (PStr (''Complete one of: '' @ join '', '' names))))
         (filter (\<lambda>c. \<not> prerequisites_met example_neo4j str_of_text
                        (or_empty (completed_courses \<lparr>completed_courses = PNone\<rparr>)) c) cs)
         inel"
    by blast
  from sr have s: "sr = example_search_results" by (simp add: example_search)
  from list_all2_lengthD[OF l] cv cs r s example_configured example_checked
  show ?thesis by auto
qed

text \<open>
  Claim C6. \<open>get_courses_by_major\<close> compares the upper-cased major with CSYE, INFO and
  DAMG. A major whose upper-case form is outside that set fails with HTTP 400 and the
  detail \<open>Invalid major. Must be one of: CSYE, INFO, DAMG\<close>. A major inside it is passed
  upper-cased to the collaborator and returned upper-cased in the response, so two majors
  with the same upper-case form give identical outcomes. With \<^verbatim>\<open>str.upper\<close> doing on ASCII
  text what \<open>ascii_upper\<close> says, \<open>csye\<close> and \<open>CSYE\<close> are both looked up as CSYE and give
  the same outcome, and \<open>xyz\<close> is refused.
\<close>

theorem get_courses_by_major_validation:
  "(str_upper mj \<notin> {''CSYE'', ''INFO'', ''DAMG''}
      \<longrightarrow> get_courses_by_major svc str_id isoformat str_upper mj limit =
            Inl (HTTPException 400 ''Invalid major. Must be one of: CSYE, INFO, DAMG''))
 \<and> (str_upper mj \<in> {''CSYE'', ''INFO'', ''DAMG''}
      \<longrightarrow> get_courses_by_major svc str_id isoformat str_upper mj limit =
            (case svc_get_courses_by_major svc (str_upper mj) limit of
               Inl e \<Rightarrow> Inl (HTTPException 500 (''Failed to retrieve courses: '' @ exn_str e))
             | Inr courses \<Rightarrow>
                 Inr [(''major'', PStr (str_upper mj)),
                      (''courses'',
                       PList (map (\<lambda>c. PDict (format_course str_id isoformat c)) courses)),
                      (''total_count'', PInt (int (length courses))),
                      (''limit'', PInt limit)]))
 \<and> (str_upper mj = str_upper mj'
      \<longrightarrow> get_courses_by_major svc str_id isoformat str_upper mj limit =
          get_courses_by_major svc str_id isoformat str_upper mj' limit)
 \<and> (get_courses_by_major svc str_id isoformat str_upper mj limit = Inr resp
      \<longrightarrow> dict_get resp ''major'' = Inr (PStr (str_upper mj))
          \<and> str_upper mj \<in> {''CSYE'', ''INFO'', ''DAMG''})
 \<and> ((\<forall>s. list_all is_ascii s \<longrightarrow> str_upper s = ascii_upper s)
      \<longrightarrow> get_courses_by_major svc str_id isoformat str_upper ''csye'' limit =
          get_courses_by_major svc str_id isoformat str_upper ''CSYE'' limit
        \<and> get_courses_by_major svc str_id isoformat str_upper ''csye'' limit =
            (case svc_get_courses_by_major svc ''CSYE'' limit of
               Inl e \<Rightarrow> Inl (HTTPException 500 (''Failed to retrieve courses: '' @ exn_str e))
             | Inr courses \<Rightarrow>
                 Inr [(''major'', PStr ''CSYE''),
                      (''courses'',
                       PList (map (\<lambda>c. PDict (format_course str_id isoformat c)) courses)),
                      (''total_count'', PInt (int (length courses))),
                      (''limit'', PInt limit)])
        \<and> get_courses_by_major svc str_id isoformat str_upper ''xyz'' limit =
            Inl (HTTPException 400 ''Invalid major. Must be one of: CSYE, INFO, DAMG''))"
proof (intro conjI impI)
  assume "str_upper mj \<notin> {''CSYE'', ''INFO'', ''DAMG''}"
  then show "get_courses_by_major svc str_id isoformat str_upper mj limit =
            Inl (HTTPException 400 ''Invalid major. Must be one of: CSYE, INFO, DAMG'')"
    by (rule get_courses_by_major_invalid)
next
  assume "str_upper mj \<in> {''CSYE'', ''INFO'', ''DAMG''}"
  then show "get_courses_by_major svc str_id isoformat str_upper mj limit =
            (case svc_get_courses_by_major svc (str_upper mj) limit of
               Inl e \<Rightarrow> Inl (HTTPException 500 (''Failed to retrieve courses: '' @ exn_str e))
             | Inr courses \<Rightarrow>
                 Inr [(''major'', PStr (str_upper mj)),
                      (''courses'',
                       PList (map (\<lambda>c. PDict (format_course str_id isoformat c)) courses)),
                      (''total_count'', PInt (int (length courses))),
                      (''limit'', PInt limit)])"
    by (rule get_courses_by_major_valid)
next
  assume "str_upper mj = str_upper mj'"
  then show "get_courses_by_major svc str_id isoformat str_upper mj limit =
          get_courses_by_major svc str_id isoformat str_upper mj' limit"
    by (rule get_courses_by_major_upper)
next
  assume a: "get_courses_by_major svc str_id isoformat str_upper mj limit = Inr resp"
  then have v: "str_upper mj \<in> set valid_majors"
    by (auto simp: get_courses_by_major_def get_courses_by_major_body_def
             split: sum.splits if_splits)
  with a show "dict_get resp ''major'' = Inr (PStr (str_upper mj))"
    by (auto simp: get_courses_by_major_def get_courses_by_major_body_def Let_def dict_get_def
             split: sum.splits)
  from v show "str_upper mj \<in> {''CSYE'', ''INFO'', ''DAMG''}" by (simp add: valid_majors_def)
next
  assume H: "\<forall>s. list_all is_ascii s \<longrightarrow> str_upper s = ascii_upper s"
  then have u: "str_upper ''csye'' = ''CSYE''" "str_upper ''CSYE'' = ''CSYE''"
    "str_upper ''xyz'' = ''XYZ''"
    using ascii_examples ascii_upper_examples by simp_all
  show "get_courses_by_major svc str_id isoformat str_upper ''csye'' limit =
          get_courses_by_major svc str_id isoformat str_upper ''CSYE'' limit"
    by (rule get_courses_by_major_upper) (simp add: u)
  have "str_upper ''csye'' \<in> {''CSYE'', ''INFO'', ''DAMG''}" by (simp add: u)
  from get_courses_by_major_valid[of str_upper "''csye''" svc str_id isoformat limit, OF this]
  show "get_courses_by_major svc str_id isoformat str_upper ''csye'' limit =
            (case svc_get_courses_by_major svc ''CSYE'' limit of
               Inl e \<Rightarrow> Inl (HTTPException 500 (''Failed to retrieve courses: '' @ exn_str e))
             | Inr courses \<Rightarrow>
                 Inr [(''major'', PStr ''CSYE''),
                      (''courses'',
                       PList (map (\<lambda>c. PDict (format_course str_id isoformat c)) courses)),
                      (''total_count'', PInt (int (length courses))),
                      (''limit'', PInt limit)])"
    by (simp add: u cong: sum.case_cong)
  have "str_upper ''xyz'' \<notin> {''CSYE'', ''INFO'', ''DAMG''}" by (simp add: u)
  then show "get_courses_by_major svc str_id isoformat str_upper ''xyz'' limit =
            Inl (HTTPException 400 ''Invalid major. Must be one of: CSYE, INFO, DAMG'')"
    by (rule get_courses_by_major_invalid)
qed

text \<open>
  The requests \<^verbatim>\<open>GET /major/csye\<close> and \<^verbatim>\<open>GET /major/CSYE\<close>, both accepted with the same
  answer, which carries CSYE; and \<^verbatim>\<open>GET /major/xyz\<close>, refused.
\<close>

theorem get_courses_by_major_validation_witness:
  "ascii_upper ''csye'' \<in> {''CSYE'', ''INFO'', ''DAMG''}
 \<and> get_courses_by_major example_search_service nat_str nat_str ascii_upper ''csye'' 50
     = Inr example_major_response
 \<and> get_courses_by_major example_search_service nat_str nat_str ascii_upper ''CSYE'' 50
     = Inr example_major_response
 \<and> dict_get example_major_response ''major'' = Inr (PStr ''CSYE'')
 \<and> ascii_upper ''xyz'' \<notin> {''CSYE'', ''INFO'', ''DAMG''}
 \<and> get_courses_by_major example_search_service nat_str nat_str ascii_upper ''xyz'' 50
     = Inl (HTTPException 400 ''Invalid major. Must be one of: CSYE, INFO, DAMG'')"
proof -
  have H: "\<forall>s. list_all is_ascii s \<longrightarrow> ascii_upper s = ascii_upper s" by simp
  have in1: "ascii_upper ''csye'' \<in> {''CSYE'', ''INFO'', ''DAMG''}"
    and out1: "ascii_upper ''xyz'' \<notin> {''CSYE'', ''INFO'', ''DAMG''}"
    by (simp_all add: ascii_upper_examples)
  note t = get_courses_by_major_validation[of ascii_upper _ example_search_service nat_str
             nat_str 50]
  from t[of "''csye''" "''CSYE''" example_major_response] example_by_major
  have maj: "dict_get example_major_response ''major'' = Inr (PStr (ascii_upper ''csye''))"
    by blast
  from t[of "''csye''" "''CSYE''" example_major_response] H
  have same: "get_courses_by_major example_search_service nat_str nat_str ascii_upper ''csye'' 50
      = get_courses_by_major example_search_service nat_str nat_str ascii_upper ''CSYE'' 50"
    and no: "get_courses_by_major example_search_service nat_str nat_str ascii_upper ''xyz'' 50
      = Inl (HTTPException 400 ''Invalid major. Must be one of: CSYE, INFO, DAMG'')"
    by blast+
  from in1 out1 maj same no example_by_major show ?thesis
    by (simp add: ascii_upper_examples)
qed

text \<open>
  Claim C7. \<open>get_course_by_id\<close> answers 404 exactly when the collaborator's lookup
  returns no course. When it returns a course the answer has \<open>id\<close> rendered as a string,
  the code, name, description and major copied, the domain, skill and prerequisite lists
  replaced by the empty list when they are None (or empty), and \<open>created_at\<close> as the
  ISO text of the creation time, or None when the course has none; it has no other field.
\<close>

theorem get_course_by_id_result:
  "(svc_get_course_by_id svc cid = Inr None
      \<longrightarrow> get_course_by_id svc str_id isoformat cid =
            Inl (HTTPException 404 (''Course with ID '' @ quoted cid @ '' not found'')))
 \<and> ((\<exists>d. get_course_by_id svc str_id isoformat cid = Inl (HTTPException 404 d))
      \<longrightarrow> svc_get_course_by_id svc cid = Inr None)
 \<and> (svc_get_course_by_id svc cid = Inr (Some c)
      \<longrightarrow> (\<exists>resp. get_course_by_id svc str_id isoformat cid = Inr resp
           \<and> dict_get resp ''id'' = Inr (PStr (str_id (id_attr c)))
           \<and> dict_get resp ''course_id'' = Inr (course_id c)
           \<and> dict_get resp ''course_name'' = Inr (course_name c)
           \<and> dict_get resp ''course_description'' = Inr (course_description c)
           \<and> dict_get resp ''major'' = Inr (major c)
           \<and> dict_get resp ''domains''
               = Inr (if truthy (domains c) then domains c else PList [])
           \<and> dict_get resp ''skills_associated''
               = Inr (if truthy (skills_associated c) then skills_associated c else PList [])
           \<and> dict_get resp ''prerequisites''
               = Inr (if truthy (prerequisites c) then prerequisites c else PList [])
           \<and> dict_get resp ''created_at''
               = Inr (case created_at c of None \<Rightarrow> PNone | Some t \<Rightarrow> PStr (isoformat t))
           \<and> map fst resp =
               [''id'', ''course_id'', ''course_name'', ''course_description'', ''major'',
                ''domains'', ''skills_associated'', ''prerequisites'', ''created_at'']))"
proof (intro conjI impI)
  assume "svc_get_course_by_id svc cid = Inr None"
  then show "get_course_by_id svc str_id isoformat cid =
            Inl (HTTPException 404 (''Course with ID '' @ quoted cid @ '' not found''))"
    by (simp add: get_course_by_id_def get_course_by_id_body_def)
next
  assume "\<exists>d. get_course_by_id svc str_id isoformat cid = Inl (HTTPException 404 d)"
  then show "svc_get_course_by_id svc cid = Inr None"
    by (auto simp: get_course_by_id_def get_course_by_id_body_def
             split: sum.splits option.splits)
next
  assume a: "svc_get_course_by_id svc cid = Inr (Some c)"
  have r: "get_course_by_id svc str_id isoformat cid = Inr (format_course str_id isoformat c)"
    using a by (simp add: get_course_by_id_def get_course_by_id_body_def)
  show "\<exists>resp. get_course_by_id svc str_id isoformat cid = Inr resp
           \<and> dict_get resp ''id'' = Inr (PStr (str_id (id_attr c)))
           \<and> dict_get resp ''course_id'' = Inr (course_id c)
           \<and> dict_get resp ''course_name'' = Inr (course_name c)
           \<and> dict_get resp ''course_description'' = Inr (course_description c)
           \<and> dict_get resp ''major'' = Inr (major c)
           \<and> dict_get resp ''domains''
               = Inr (if truthy (domains c) then domains c else PList [])
           \<and> dict_get resp ''skills_associated''
               = Inr (if truthy (skills_associated c) then skills_associated c else PList [])
           \<and> dict_get resp ''prerequisites''
               = Inr (if truthy (prerequisites c) then prerequisites c else PList [])
           \<and> dict_get resp ''created_at''
               = Inr (case created_at c of None \<Rightarrow> PNone | Some t \<Rightarrow> PStr (isoformat t))
           \<and> map fst resp =
               [''id'', ''course_id'', ''course_name'', ''course_description'', ''major'',
                ''domains'', ''skills_associated'', ''prerequisites'', ''created_at'']"
    apply (rule exI[of _ "format_course str_id isoformat c"])
    apply (intro conjI)
    apply (rule r format_course_fields)+
    done
qed

text \<open>An unknown identifier, and the example course.\<close>

theorem get_course_by_id_result_witness:
  "svc_get_course_by_id example_search_service ''CSYE0000'' = Inr None
 \<and> get_course_by_id example_search_service nat_str nat_str ''CSYE0000''
     = Inl (HTTPException 404 (''Course with ID '' @ quoted ''CSYE0000'' @ '' not found''))
 \<and> svc_get_course_by_id example_search_service ''CSYE6200'' = Inr (Some example_course)
 \<and> (\<exists>resp. get_course_by_id example_search_service nat_str nat_str ''CSYE6200'' = Inr resp
      \<and> dict_get resp ''id'' = Inr (PStr (nat_str 7))
      \<and> dict_get resp ''domains'' = Inr (PList [])
      \<and> dict_get resp ''skills_associated'' = Inr (PList [PStr ''Java''])
      \<and> dict_get resp ''created_at'' = Inr PNone)"
proof -
  have h: "svc_get_course_by_id example_search_service ''CSYE0000'' = Inr None"
    by (simp add: example_search_service_def)
  have k: "svc_get_course_by_id example_search_service ''CSYE6200'' = Inr (Some example_course)"
    by (simp add: example_search_service_def)
  from h get_course_by_id_result[of example_search_service "''CSYE0000''" nat_str nat_str]
  have a: "get_course_by_id example_search_service nat_str nat_str ''CSYE0000''
     = Inl (HTTPException 404 (''Course with ID '' @ quoted ''CSYE0000'' @ '' not found''))"
    by blast
  from k get_course_by_id_result[of example_search_service "''CSYE6200''" nat_str nat_str
         example_course]
  obtain resp where
    "get_course_by_id example_search_service nat_str nat_str ''CSYE6200'' = Inr resp"
    "dict_get resp ''id'' = Inr (PStr (nat_str (id_attr example_course)))"
    "dict_get resp ''domains''
       = Inr (if truthy (domains example_course) then domains example_course else PList [])"
    "dict_get resp ''skills_associated''
       = Inr (if truthy (skills_associated example_course)
              then skills_associated example_course else PList [])"
    "dict_get resp ''created_at''
       = Inr (case created_at example_course of None \<Rightarrow> PNone | Some t \<Rightarrow> PStr (nat_str t))"
    by blast
  then have "\<exists>resp. get_course_by_id example_search_service nat_str nat_str ''CSYE6200'' = Inr resp
      \<and> dict_get resp ''id'' = Inr (PStr (nat_str 7))
      \<and> dict_get resp ''domains'' = Inr (PList [])
      \<and> dict_get resp ''skills_associated'' = Inr (PList [PStr ''Java''])
      \<and> dict_get resp ''created_at'' = Inr PNone"
    by (simp add: example_course_def)
  with h k a show ?thesis by blast
qed

text \<open>
  Claim C8. With prerequisite checking enabled, the entries of \<open>eligible_courses\<close>
  correspond one to one, in the order of the search result, to the courses whose
  prerequisites are reported satisfied; the entry of such a course is the course's
  dictionary with \<open>prerequisite_status\<close> set to the reported status and \<open>eligible\<close> set
  to true. The entries of \<open>ineligible_courses\<close> follow the order of the search result as
  well.
\<close>

theorem search_courses_eligible_entries:
  assumes cfg: "is_configured neo = Inr True"
      and ok: "search_courses svc neo str_of q limit offset mf True u = Inr resp"
  shows "\<exists>sr cv cs el inel.
       svc_search_courses svc q limit offset mf = Inr sr
     \<and> dict_get sr ''courses'' = Inr cv \<and> py_iter cv = Inr cs
     \<and> dict_get resp ''eligible_courses'' = Inr (PList el)
     \<and> dict_get resp ''ineligible_courses'' = Inr (PList inel)
     \<and> list_all2
         (\<lambda>c e. \<exists>d st.
            c = PDict d
          \<and> prereq_status_of neo str_of (or_empty (completed_courses u)) c = Inr st
          \<and> e = PDict (dict_set (dict_set d ''prerequisite_status'' st)
                                ''eligible'' (PBool True)))
         (filter (prerequisites_met neo str_of (or_empty (completed_courses u))) cs)
         el
     \<and> list_all2
         (\<lambda>c e. check_course neo str_of (or_empty (completed_courses u)) c = Inr (False, e))
         (filter (\<lambda>c. \<not> prerequisites_met neo str_of (or_empty (completed_courses u)) c) cs)
         inel"
proof -
  let ?comp = "or_empty (completed_courses u)"
  from ok have "search_courses_body svc neo str_of q limit offset mf True u = Inr resp"
    by (simp add: search_courses_Inr)
  from checked_body[OF cfg this] obtain sr cv cs rs where
    sr: "svc_search_courses svc q limit offset mf = Inr sr"
    and cv: "dict_get sr ''courses'' = Inr cv" and cs: "py_iter cv = Inr cs"
    and rs: "list_all2 (\<lambda>c r. check_course neo str_of ?comp c = Inr r) cs rs"
    and resp: "resp = dict_set (dict_set (dict_set (dict_set (dict_set (dict_set sr
                ''eligible_courses'' (PList (map snd (filter fst rs))))
                ''ineligible_courses'' (PList (map snd (filter (\<lambda>r. \<not> fst r) rs))))
                ''prerequisites_checked'' (PBool True))
                ''user_completed_courses'' ?comp)
                ''eligible_count'' (PInt (int (length (map snd (filter fst rs))))))
                ''ineligible_count'' (PInt (int (length (map snd (filter (\<lambda>r. \<not> fst r) rs)))))"
    by blast
  define el where "el = map snd (filter fst rs)"
  define inel where "inel = map snd (filter (\<lambda>r. \<not> fst r) rs)"
  note fields = checked_response_fields[OF resp, folded el_def inel_def]
  have "list_all2 (\<lambda>c e. check_course neo str_of ?comp c = Inr (True, e))
           (filter (prerequisites_met neo str_of ?comp) cs) el"
    unfolding el_def by (rule checked_entries(1)[OF rs])
  then have e1: "list_all2
         (\<lambda>c e. \<exists>d st.
            c = PDict d
          \<and> prereq_status_of neo str_of ?comp c = Inr st
          \<and> e = PDict (dict_set (dict_set d ''prerequisite_status'' st)
                                ''eligible'' (PBool True)))
         (filter (prerequisites_met neo str_of ?comp) cs) el"
    by (rule list_all2_mono) (rule check_course_eligible)
  have e2: "list_all2 (\<lambda>c e. check_course neo str_of ?comp c = Inr (False, e))
           (filter (\<lambda>c. \<not> prerequisites_met neo str_of ?comp c) cs) inel"
    unfolding inel_def by (rule checked_entries(2)[OF rs])
  show ?thesis
    apply (rule exI[of _ sr], rule exI[of _ cv], rule exI[of _ cs])
    apply (rule exI[of _ el], rule exI[of _ inel])
    apply (intro conjI)
    apply (rule sr cv cs fields(1) fields(2) e1 e2)+
    done
qed

text \<open>The example request: CSYE6200 has no prerequisite.\<close>

theorem search_courses_eligible_entries_witness:
  "is_configured example_neo4j = Inr True
 \<and> search_courses example_search_service example_neo4j str_of_text ''CSYE'' 5 0 None True
      \<lparr>completed_courses = PNone\<rparr> = Inr example_checked_response
 \<and> (\<exists>cv cs el.
       dict_get example_search_results ''courses'' = Inr cv \<and> py_iter cv = Inr cs
     \<and> dict_get example_checked_response ''eligible_courses'' = Inr (PList el)
     \<and> length el = length
         (filter (prerequisites_met example_neo4j str_of_text
                    (or_empty (completed_courses \<lparr>completed_courses = PNone\<rparr>))) cs))"
proof -
  from search_courses_eligible_entries[OF example_configured example_checked]
  obtain sr cv cs el where
    sr: "svc_search_courses example_search_service ''CSYE'' 5 0 None = Inr sr"
    and cv: "dict_get sr ''courses'' = Inr cv" and cs: "py_iter cv = Inr cs"
    and r: "dict_get example_checked_response ''eligible_courses'' = Inr (PList el)"
    and l: "list_all2
         (\<lambda>c e. \<exists>d st.
            c = PDict d
          \<and> prereq_status_of example_neo4j str_of_text
               (or_empty (completed_courses \<lparr>completed_courses = PNone\<rparr>)) c = Inr st
          \<and> e = PDict (dict_set (dict_set d ''prerequisite_status'' st)
                                ''eligible'' (PBool True)))
         (filter (prerequisites_met example_neo4j str_of_text
                    (or_empty (completed_courses \<lparr>completed_courses = PNone\<rparr>))) cs)
         el"
    by blast
  from sr have s: "sr = example_search_results" by (simp add: example_search)
  from list_all2_lengthD[OF l] cv cs r s example_configured example_checked
  show ?thesis by auto
qed

text \<open>
  Claim C9. A caller whose \<open>completed_courses\<close> is None gets the same outcome as a
  caller whose \<open>completed_courses\<close> is the empty list; the outcome depends on the graph
  collaborator only through its answers for the empty list; and when prerequisites were
  checked the response's \<open>user_completed_courses\<close> is the empty list. (The attribute of
  the ORM user always exists; a caller without completed courses has None there.)
\<close>

theorem search_courses_completed_none:
  "search_courses svc neo str_of q limit offset mf chk (u\<lparr>completed_courses := PNone\<rparr>) =
   search_courses svc neo str_of q limit offset mf chk (u\<lparr>completed_courses := PList []\<rparr>)
   \<and> (is_configured neo = is_configured neo'
        \<and> (\<forall>cid. check_prerequisites_completion neo cid (PList []) =
                  check_prerequisites_completion neo' cid (PList []))
      \<longrightarrow> search_courses svc neo str_of q limit offset mf chk (u\<lparr>completed_courses := PNone\<rparr>) =
          search_courses svc neo' str_of q limit offset mf chk (u\<lparr>completed_courses := PNone\<rparr>))
   \<and> (is_configured neo = Inr True
        \<and> search_courses svc neo str_of q limit offset mf True (u\<lparr>completed_courses := PNone\<rparr>)
            = Inr resp
      \<longrightarrow> dict_get resp ''user_completed_courses'' = Inr (PList []))"
proof (intro conjI impI)
  show "search_courses svc neo str_of q limit offset mf chk (u\<lparr>completed_courses := PNone\<rparr>) =
   search_courses svc neo str_of q limit offset mf chk (u\<lparr>completed_courses := PList []\<rparr>)"
    by (simp add: search_courses_def search_courses_body_def or_empty_def)
next
  assume a: "is_configured neo = is_configured neo'
        \<and> (\<forall>cid. check_prerequisites_completion neo cid (PList []) =
                  check_prerequisites_completion neo' cid (PList []))"
  have "search_courses_body svc neo str_of q limit offset mf chk (u\<lparr>completed_courses := PNone\<rparr>) =
        search_courses_body svc neo' str_of q limit offset mf chk (u\<lparr>completed_courses := PNone\<rparr>)"
    by (rule search_courses_body_agree) (use a in \<open>simp_all add: or_empty_def\<close>)
  then show "search_courses svc neo str_of q limit offset mf chk (u\<lparr>completed_courses := PNone\<rparr>) =
          search_courses svc neo' str_of q limit offset mf chk (u\<lparr>completed_courses := PNone\<rparr>)"
    by (simp add: search_courses_def)
next
  assume a: "is_configured neo = Inr True
        \<and> search_courses svc neo str_of q limit offset mf True (u\<lparr>completed_courses := PNone\<rparr>)
            = Inr resp"
  then have b: "search_courses_body svc neo str_of q limit offset mf True
                  (u\<lparr>completed_courses := PNone\<rparr>) = Inr resp"
    by (simp add: search_courses_Inr)
  from a have cfg: "is_configured neo = Inr True" by simp
  from checked_body[OF cfg b] obtain sr a1 a2 a3 a5 a6 where
    "resp = dict_set (dict_set (dict_set (dict_set (dict_set (dict_set sr
                ''eligible_courses'' a1)
                ''ineligible_courses'' a2)
                ''prerequisites_checked'' a3)
                ''user_completed_courses'' (or_empty (completed_courses (u\<lparr>completed_courses := PNone\<rparr>))))
                ''eligible_count'' a5)
                ''ineligible_count'' a6" by blast
  from checked_response_fields(4)[OF this]
  show "dict_get resp ''user_completed_courses'' = Inr (PList [])"
    by (simp add: or_empty_def)
qed

text \<open>The example request with no completed courses.\<close>

theorem search_courses_completed_none_witness:
  "is_configured example_neo4j = Inr True
 \<and> search_courses example_search_service example_neo4j str_of_text ''CSYE'' 5 0 None True
      \<lparr>completed_courses = PNone\<rparr> = Inr example_checked_response
 \<and> dict_get example_checked_response ''user_completed_courses'' = Inr (PList [])
 \<and> search_courses example_search_service example_neo4j str_of_text ''CSYE'' 5 0 None True
      \<lparr>completed_courses = PList []\<rparr> = Inr example_checked_response"
  using search_courses_completed_none[of example_search_service example_neo4j str_of_text
          "''CSYE''" 5 0 None True "\<lparr>completed_courses = PNone\<rparr>" example_neo4j
          example_checked_response]
        example_configured example_checked
  by simp

text \<open>
  Claim C10. In a successful answer of \<open>get_courses_by_major\<close>, \<open>total_count\<close> is the
  length of the \<open>courses\<close> sequence of that answer, which has one formatted entry for
  each course the collaborator returned for the limit.
\<close>

theorem get_courses_by_major_total_count:
  assumes "get_courses_by_major svc str_id isoformat str_upper mj limit = Inr resp"
  shows "\<exists>courses cs.
       svc_get_courses_by_major svc (str_upper mj) limit = Inr courses
     \<and> dict_get resp ''courses'' = Inr (PList cs)
     \<and> cs = map (\<lambda>c. PDict (format_course str_id isoformat c)) courses
     \<and> dict_get resp ''total_count'' = Inr (PInt (int (length cs)))
     \<and> length cs = length courses
     \<and> dict_get resp ''limit'' = Inr (PInt limit)"
  using assms
  by (auto simp: get_courses_by_major_def get_courses_by_major_body_def Let_def dict_get_def
           split: sum.splits if_splits raised.splits)

text \<open>The request \<^verbatim>\<open>GET /major/csye\<close>.\<close>

theorem get_courses_by_major_total_count_witness:
  "get_courses_by_major example_search_service nat_str nat_str ascii_upper ''csye'' 50
     = Inr example_major_response
 \<and> (\<exists>cs. dict_get example_major_response ''courses'' = Inr (PList cs)
     \<and> dict_get example_major_response ''total_count'' = Inr (PInt (int (length cs))))"
  using get_courses_by_major_total_count[OF example_by_major] example_by_major
  by blast

end
